theory Spec2Isabelle
  imports Complex_Main
begin

section \<open>Tabular TD control: SARSA, SARSAMAX and Expected SARSA\<close>

text \<open>
  The three notebooks share one architecture: a \<open>defaultdict\<close> from states to numpy
  vectors of action values, an epsilon-greedy selector, an update function
  \<open>update_sarsa_Q\<close>, an episode runner \<open>generate_sarsa_episode\<close> and a driver
  \<open>train\<close>. Python exceptions are the left summand of a sum type, and every object
  that the code mutates (the table, the environment, the random generator) is passed in
  and returned. The numbers are binary64 in the code and real numbers here; the
  arithmetic is exact, except in the probability vector of Expected SARSA, whose entries
  are rounded as binary64 rounds them.
\<close>

subsection \<open>Exceptions\<close>

datatype error = ValueError | IndexError | NameError | ZeroDivisionError

subsection \<open>The action-value table\<close>

text \<open>
  \<open>Q = defaultdict(lambda: np.zeros(env.action_space.n))\<close>. A key is whatever the
  code indexes the dictionary with: an environment state (an integer) or Python's
  \<open>None\<close>, which is hashable and therefore a legal key. The table carries the length
  that its default factory gives to a fresh vector.
\<close>

type_synonym state = nat
type_synonym key = "state option"

record qtable =
  entries :: "key \<rightharpoonup> real list"
  factory_n :: nat

definition zeros :: "nat \<Rightarrow> real list" where
  "zeros n = replicate n 0"

definition new_table :: "nat \<Rightarrow> qtable" where
  "new_table n = \<lparr>entries = Map.empty, factory_n = n\<rparr>"

text \<open>
  \<open>Q[k]\<close> on a \<open>defaultdict\<close>: a stored vector is returned as it is; a missing key
  is first bound to a fresh zero vector, so reading changes the dictionary.
\<close>

definition dd_get :: "qtable \<Rightarrow> key \<Rightarrow> real list \<times> qtable" where
  "dd_get Q k =
     (case entries Q k of
        Some v \<Rightarrow> (v, Q)
      | None \<Rightarrow> (zeros (factory_n Q), Q\<lparr>entries := (entries Q)(k \<mapsto> zeros (factory_n Q))\<rparr>))"

text \<open>The vector that a read of \<open>Q[k]\<close> yields, without the effect on the dictionary.\<close>

definition peek :: "qtable \<Rightarrow> key \<Rightarrow> real list" where
  "peek Q k = fst (dd_get Q k)"

text \<open>The dictionary after a read of \<open>Q[k]\<close>.\<close>

definition touch :: "qtable \<Rightarrow> key \<Rightarrow> qtable" where
  "touch Q k = snd (dd_get Q k)"

text \<open>\<open>v[i]\<close> on a numpy vector with a non-negative index.\<close>

definition item :: "real list \<Rightarrow> nat \<Rightarrow> error + real" where
  "item v i = (if i < length v then Inr (v ! i) else Inl IndexError)"

text \<open>
  The assignment \<open>Q[state][action] = x\<close>: the dictionary is read at \<open>state\<close> (which
  binds a missing key) and the vector found there is updated in place.
\<close>

definition setitem :: "qtable \<Rightarrow> state \<Rightarrow> nat \<Rightarrow> real \<Rightarrow> error + qtable" where
  "setitem Q s a x =
     (case dd_get Q (Some s) of
        (v, Q1) \<Rightarrow>
          if a < length v then Inr (Q1\<lparr>entries := (entries Q1)(Some s \<mapsto> v[a := x])\<rparr>)
          else Inl IndexError)"

text \<open>
  \<open>np.argmax(v)\<close>: the first index of the largest element; \<open>ValueError\<close> on an empty
  vector.
\<close>

fun argmax_from :: "real list \<Rightarrow> nat \<Rightarrow> nat \<Rightarrow> real \<Rightarrow> nat" where
  "argmax_from [] i best bv = best"
| "argmax_from (x # xs) i best bv =
     (if bv < x then argmax_from xs (Suc i) i x else argmax_from xs (Suc i) best bv)"

definition argmax :: "real list \<Rightarrow> error + nat" where
  "argmax v = (case v of [] \<Rightarrow> Inl ValueError | x # xs \<Rightarrow> Inr (argmax_from xs 1 0 x))"

text \<open>\<open>np.dot(v, p)\<close> on two vectors: \<open>ValueError\<close> when the lengths differ.\<close>

definition dot :: "real list \<Rightarrow> real list \<Rightarrow> error + real" where
  "dot v p = (if length v = length p then Inr (\<Sum>(x, y)\<leftarrow>zip v p. x * y) else Inl ValueError)"

subsection \<open>Randomness\<close>

text \<open>
  The generator is the sequence of uniform variates of \<open>[0, 1)\<close> that it will hand out.
  \<open>np.random.rand()\<close> takes the next one; \<open>np.random.randint(n)\<close> raises
  \<open>ValueError\<close> for \<open>n = 0\<close> and otherwise scales the next variate to \<open>[0, n)\<close>.
\<close>

type_synonym rng = "nat \<Rightarrow> real"

definition advance :: "rng \<Rightarrow> rng" where
  "advance g = (\<lambda>i. g (Suc i))"

definition np_rand :: "rng \<Rightarrow> real \<times> rng" where
  "np_rand g = (g 0, advance g)"

definition np_randint :: "nat \<Rightarrow> rng \<Rightarrow> error + (nat \<times> rng)" where
  "np_randint n g =
     (if n = 0 then Inl ValueError else Inr (nat \<lfloor>g 0 * real n\<rfloor>, advance g))"

subsection \<open>The epsilon-greedy selector\<close>

text \<open>
  \<^verbatim>\<open>
  def eps_greedy(eps, Q, state, nA):
      rand = np.random.rand()
      if rand < eps:
          return np.random.randint(nA)
      else:
          return np.argmax(Q[state])
  \<close>
  The result is the action together with the table and the generator after the call.
\<close>

definition eps_greedy :: "real \<Rightarrow> qtable \<Rightarrow> state \<Rightarrow> nat \<Rightarrow> rng \<Rightarrow> error + (nat \<times> qtable \<times> rng)" where
  "eps_greedy eps Q state nA g =
     (case np_rand g of
        (rand, g1) \<Rightarrow>
          if rand < eps then
            (case np_randint nA g1 of
               Inl e \<Rightarrow> Inl e
             | Inr (a, g2) \<Rightarrow> Inr (a, Q, g2))
          else
            (case dd_get Q (Some state) of
               (v, Q1) \<Rightarrow>
                 (case argmax v of
                    Inl e \<Rightarrow> Inl e
                  | Inr a \<Rightarrow> Inr (a, Q1, g1))))"

subsection \<open>Epsilon decay\<close>

text \<open>The first statement of the body of the loop in \<open>train\<close>:
  \<open>eps = max(eps * eps_decay, eps_min)\<close>.\<close>

definition decay_eps :: "real \<Rightarrow> real \<Rightarrow> real \<Rightarrow> real" where
  "decay_eps eps_decay eps_min eps = max (eps * eps_decay) eps_min"

subsection \<open>Rounding to binary64\<close>

text \<open>
  A binary64 operation returns the exact result rounded to the nearest number with 53
  significant bits, a tie going to the one whose last bit is 0. \<open>fl\<close> is that rounding:
  for \<open>2^k \<le> |x| < 2^(k+1)\<close> the representable numbers are the multiples of
  \<open>2^(k-52)\<close>. The range of the exponent is not bounded here: there is no overflow and
  there are no subnormal numbers.
\<close>

definition round_even :: "real \<Rightarrow> int" where
  "round_even y =
     (let n = \<lfloor>y\<rfloor>; d = y - of_int n
      in if d < 1/2 then n else if 1/2 < d then n + 1 else if even n then n else n + 1)"

definition fl :: "real \<Rightarrow> real" where
  "fl x =
     (if x = 0 then 0
      else of_int (round_even (x * 2 powi (52 - \<lfloor>log 2 \<bar>x\<bar>\<rfloor>))) * 2 powi (\<lfloor>log 2 \<bar>x\<bar>\<rfloor> - 52))"

text \<open>The largest relative error of one rounding.\<close>

definition unit_roundoff :: real where
  "unit_roundoff = 1 / 2 ^ 53"

subsection \<open>The update functions\<close>

text \<open>
  All three notebooks end \<open>update_sarsa_Q\<close> with the same statement,
  \<^verbatim>\<open>
  updated_q_value = Q[state][action] + alpha * (reward + gamma * Qsa - Q[state][action])
  \<close>
  in which \<open>reward\<close> is neither a parameter nor a local variable: Python resolves the
  name in the module's globals when the statement runs. The model passes that binding
  as \<open>reward_g\<close>, with \<open>None\<close> for a name that is not bound (\<open>NameError\<close>). The
  operands are evaluated from left to right.
\<close>

definition td_value :: "real option \<Rightarrow> real \<Rightarrow> real \<Rightarrow> qtable \<Rightarrow> state \<Rightarrow> nat \<Rightarrow> real \<Rightarrow> error + (real \<times> qtable)" where
  "td_value reward_g alpha gamma Q state action Qsa =
     (case dd_get Q (Some state) of
        (v, Q1) \<Rightarrow>
          (case item v action of
             Inl e \<Rightarrow> Inl e
           | Inr q \<Rightarrow>
               (case reward_g of
                  None \<Rightarrow> Inl NameError
                | Some reward \<Rightarrow> Inr (q + alpha * (reward + gamma * Qsa - q), Q1))))"

text \<open>
  SARSA:
  \<^verbatim>\<open>
  def update_sarsa_Q(alpha, gamma, Q, state, action, next_state=None, next_action=None):
      Qsa = Q[next_state][next_action] if next_state is not None else 0
  \<close>
  Both call sites pass \<open>next_state\<close> and \<open>next_action\<close> together or leave both out,
  so the two optional parameters are one optional pair.
\<close>

definition Qsa_sarsa :: "qtable \<Rightarrow> (state \<times> nat) option \<Rightarrow> error + (real \<times> qtable)" where
  "Qsa_sarsa Q nxt =
     (case nxt of
        None \<Rightarrow> Inr (0, Q)
      | Some (next_state, next_action) \<Rightarrow>
          (case dd_get Q (Some next_state) of
             (v, Q1) \<Rightarrow>
               (case item v next_action of
                  Inl e \<Rightarrow> Inl e
                | Inr x \<Rightarrow> Inr (x, Q1))))"

definition update_sarsa_Q_sarsa ::
  "real option \<Rightarrow> real \<Rightarrow> real \<Rightarrow> qtable \<Rightarrow> state \<Rightarrow> nat \<Rightarrow> (state \<times> nat) option \<Rightarrow> error + (real \<times> qtable)" where
  "update_sarsa_Q_sarsa reward_g alpha gamma Q state action nxt =
     (case Qsa_sarsa Q nxt of
        Inl e \<Rightarrow> Inl e
      | Inr (Qsa, Q1) \<Rightarrow> td_value reward_g alpha gamma Q1 state action Qsa)"

text \<open>
  SARSAMAX:
  \<^verbatim>\<open>
  def update_sarsa_Q(alpha, gamma, Q, state, action, next_state=None):
      next_action = np.argmax(Q[next_state])
      Qsa = Q[next_state][next_action] if next_state is not None else 0
  \<close>
  The first statement indexes the dictionary with \<open>next_state\<close> whatever it is.
\<close>

definition Qsa_max :: "qtable \<Rightarrow> state option \<Rightarrow> error + (real \<times> qtable)" where
  "Qsa_max Q next_state =
     (case dd_get Q next_state of
        (v, Q1) \<Rightarrow>
          (case argmax v of
             Inl e \<Rightarrow> Inl e
           | Inr next_action \<Rightarrow>
               (case next_state of
                  None \<Rightarrow> Inr (0, Q1)
                | Some ns \<Rightarrow>
                    (case dd_get Q1 (Some ns) of
                       (v2, Q2) \<Rightarrow>
                         (case item v2 next_action of
                            Inl e \<Rightarrow> Inl e
                          | Inr x \<Rightarrow> Inr (x, Q2))))))"

definition update_sarsa_Q_max ::
  "real option \<Rightarrow> real \<Rightarrow> real \<Rightarrow> qtable \<Rightarrow> state \<Rightarrow> nat \<Rightarrow> state option \<Rightarrow> error + (real \<times> qtable)" where
  "update_sarsa_Q_max reward_g alpha gamma Q state action next_state =
     (case Qsa_max Q next_state of
        Inl e \<Rightarrow> Inl e
      | Inr (Qsa, Q1) \<Rightarrow> td_value reward_g alpha gamma Q1 state action Qsa)"

text \<open>
  Expected SARSA:
  \<^verbatim>\<open>
  def update_sarsa_Q(eps, nA, alpha, gamma, Q, state, action, next_state=None):
      if next_state is not None:
          policy = np.ones(nA) * eps/nA
          policy[np.argmax(Q[next_state])] = 1 - eps + eps/nA
          Qsa = np.dot(Q[next_state], policy)
      else:
          Qsa = 0
  \<close>
  The first statement divides a numpy array, which raises nothing for \<open>nA = 0\<close>; the
  right-hand side of the second divides two Python numbers and raises
  \<open>ZeroDivisionError\<close> there, before the subscript on the left is evaluated. Every
  operation on the way to an entry of \<open>policy\<close> is rounded: \<open>np.ones(nA) * eps\<close>, the
  division by \<open>nA\<close>, \<open>1 - eps\<close>, \<open>eps/nA\<close> and the sum of the last two. The integer
  \<open>nA\<close> is a binary64 number as it is (an array has fewer than \<open>2^53\<close> entries).
\<close>

definition policy_expected :: "real \<Rightarrow> nat \<Rightarrow> qtable \<Rightarrow> state \<Rightarrow> error + (real list \<times> qtable)" where
  "policy_expected eps nA Q next_state =
     (let policy = replicate nA (fl (fl (1 * eps) / real nA)) in
      if nA = 0 then Inl ZeroDivisionError
      else
        (case dd_get Q (Some next_state) of
           (v, Q1) \<Rightarrow>
             (case argmax v of
                Inl e \<Rightarrow> Inl e
              | Inr i \<Rightarrow>
                  if i < length policy
                  then Inr (policy[i := fl (fl (1 - eps) + fl (eps / real nA))], Q1)
                  else Inl IndexError)))"

definition Qsa_expected :: "real \<Rightarrow> nat \<Rightarrow> qtable \<Rightarrow> state option \<Rightarrow> error + (real \<times> qtable)" where
  "Qsa_expected eps nA Q next_state =
     (case next_state of
        None \<Rightarrow> Inr (0, Q)
      | Some ns \<Rightarrow>
          (case policy_expected eps nA Q ns of
             Inl e \<Rightarrow> Inl e
           | Inr (policy, Q1) \<Rightarrow>
               (case dd_get Q1 (Some ns) of
                  (v, Q2) \<Rightarrow>
                    (case dot v policy of
                       Inl e \<Rightarrow> Inl e
                     | Inr x \<Rightarrow> Inr (x, Q2)))))"

definition update_sarsa_Q_expected ::
  "real option \<Rightarrow> real \<Rightarrow> nat \<Rightarrow> real \<Rightarrow> real \<Rightarrow> qtable \<Rightarrow> state \<Rightarrow> nat \<Rightarrow> state option \<Rightarrow> error + (real \<times> qtable)" where
  "update_sarsa_Q_expected reward_g eps nA alpha gamma Q state action next_state =
     (case Qsa_expected eps nA Q next_state of
        Inl e \<Rightarrow> Inl e
      | Inr (Qsa, Q1) \<Rightarrow> td_value reward_g alpha gamma Q1 state action Qsa)"

text \<open>
  The statement \<open>Q[state][action] = update_sarsa_Q(...)\<close> of the episode runners: the
  right-hand side is evaluated first, then the target is subscripted and written.
\<close>

definition learn_sarsa ::
  "real option \<Rightarrow> real \<Rightarrow> real \<Rightarrow> qtable \<Rightarrow> state \<Rightarrow> nat \<Rightarrow> (state \<times> nat) option \<Rightarrow> error + qtable" where
  "learn_sarsa reward_g alpha gamma Q state action nxt =
     (case update_sarsa_Q_sarsa reward_g alpha gamma Q state action nxt of
        Inl e \<Rightarrow> Inl e
      | Inr (x, Q1) \<Rightarrow> setitem Q1 state action x)"

definition learn_max ::
  "real option \<Rightarrow> real \<Rightarrow> real \<Rightarrow> qtable \<Rightarrow> state \<Rightarrow> nat \<Rightarrow> state option \<Rightarrow> error + qtable" where
  "learn_max reward_g alpha gamma Q state action next_state =
     (case update_sarsa_Q_max reward_g alpha gamma Q state action next_state of
        Inl e \<Rightarrow> Inl e
      | Inr (x, Q1) \<Rightarrow> setitem Q1 state action x)"

definition learn_expected ::
  "real option \<Rightarrow> real \<Rightarrow> nat \<Rightarrow> real \<Rightarrow> real \<Rightarrow> qtable \<Rightarrow> state \<Rightarrow> nat \<Rightarrow> state option \<Rightarrow> error + qtable" where
  "learn_expected reward_g eps nA alpha gamma Q state action next_state =
     (case update_sarsa_Q_expected reward_g eps nA alpha gamma Q state action next_state of
        Inl e \<Rightarrow> Inl e
      | Inr (x, Q1) \<Rightarrow> setitem Q1 state action x)"

subsection \<open>The environment\<close>

text \<open>
  The environment is an external collaborator: \<open>env.action_space.n\<close>, \<open>env.reset()\<close>
  and \<open>env.step(action)\<close>, whose \<open>info\<close> the code ignores. Its hidden state has an
  arbitrary type.
\<close>

record 'e env =
  action_space_n :: nat
  env_reset :: "'e \<Rightarrow> state \<times> 'e"
  env_step :: "'e \<Rightarrow> nat \<Rightarrow> (state \<times> real \<times> bool) \<times> 'e"

subsection \<open>The episode runners\<close>

text \<open>
  Each runner is a \<open>while True\<close> loop that ends at the \<open>break\<close> of the terminal
  transition. The loops take fuel: one unit for each iteration, and \<open>None\<close> when it is
  used up before the episode ends. The \<open>reward\<close> that \<open>env.step\<close> returns is a local
  variable of the runner; it is added to \<open>score\<close> and passed nowhere.

  SARSA:
  \<^verbatim>\<open>
      while True:
          next_state, reward, done, info = env.step(action)
          score += reward
          next_action = eps_greedy(eps, Q, next_state, nA)
          if not done:
              Q[state][action] = update_sarsa_Q(alpha, gamma, Q, state, action, next_state, next_action)
              state = next_state
              action = next_action
          if done:
              Q[state][action] = update_sarsa_Q(alpha, gamma, Q, state, action)
              break
  \<close>
\<close>

fun sarsa_loop ::
  "nat \<Rightarrow> 'e env \<Rightarrow> real option \<Rightarrow> real \<Rightarrow> real \<Rightarrow> real \<Rightarrow> nat \<Rightarrow>
   qtable \<Rightarrow> state \<Rightarrow> nat \<Rightarrow> real \<Rightarrow> 'e \<Rightarrow> rng \<Rightarrow> (error + (qtable \<times> real \<times> 'e \<times> rng)) option" where
  "sarsa_loop 0 env reward_g eps alpha gamma nA Q state action score e g = None"
| "sarsa_loop (Suc fuel) env reward_g eps alpha gamma nA Q state action score e g =
     (case env_step env e action of
        ((next_state, reward, done), e1) \<Rightarrow>
          (case eps_greedy eps Q next_state nA g of
             Inl err \<Rightarrow> Some (Inl err)
           | Inr (next_action, Q1, g1) \<Rightarrow>
               if \<not> done then
                 (case learn_sarsa reward_g alpha gamma Q1 state action (Some (next_state, next_action)) of
                    Inl err \<Rightarrow> Some (Inl err)
                  | Inr Q2 \<Rightarrow>
                      sarsa_loop fuel env reward_g eps alpha gamma nA Q2 next_state next_action
                        (score + reward) e1 g1)
               else
                 (case learn_sarsa reward_g alpha gamma Q1 state action None of
                    Inl err \<Rightarrow> Some (Inl err)
                  | Inr Q2 \<Rightarrow> Some (Inr (Q2, score + reward, e1, g1)))))"

definition generate_sarsa_episode_sarsa ::
  "nat \<Rightarrow> real option \<Rightarrow> 'e env \<Rightarrow> qtable \<Rightarrow> real \<Rightarrow> real \<Rightarrow> real \<Rightarrow> 'e \<Rightarrow> rng \<Rightarrow>
   (error + (qtable \<times> real \<times> 'e \<times> rng)) option" where
  "generate_sarsa_episode_sarsa fuel reward_g env Q eps alpha gamma e g =
     (let nA = action_space_n env in
      case env_reset env e of
        (state, e1) \<Rightarrow>
          (case eps_greedy eps Q state nA g of
             Inl err \<Rightarrow> Some (Inl err)
           | Inr (action, Q1, g1) \<Rightarrow>
               sarsa_loop fuel env reward_g eps alpha gamma nA Q1 state action 0 e1 g1))"

text \<open>
  SARSAMAX:
  \<^verbatim>\<open>
      while True:
          action = eps_greedy(eps, Q, state, nA)
          next_state, reward, done, info = env.step(action)
          score += reward
          if not done:
              Q[state][action] = update_sarsa_Q(alpha, gamma, Q, state, action, next_state)
              state = next_state
          if done:
              Q[state][action] = update_sarsa_Q(alpha, gamma, Q, state, action)
              break
  \<close>
\<close>

fun max_loop ::
  "nat \<Rightarrow> 'e env \<Rightarrow> real option \<Rightarrow> real \<Rightarrow> real \<Rightarrow> real \<Rightarrow> nat \<Rightarrow>
   qtable \<Rightarrow> state \<Rightarrow> real \<Rightarrow> 'e \<Rightarrow> rng \<Rightarrow> (error + (qtable \<times> real \<times> 'e \<times> rng)) option" where
  "max_loop 0 env reward_g eps alpha gamma nA Q state score e g = None"
| "max_loop (Suc fuel) env reward_g eps alpha gamma nA Q state score e g =
     (case eps_greedy eps Q state nA g of
        Inl err \<Rightarrow> Some (Inl err)
      | Inr (action, Q1, g1) \<Rightarrow>
          (case env_step env e action of
             ((next_state, reward, done), e1) \<Rightarrow>
               if \<not> done then
                 (case learn_max reward_g alpha gamma Q1 state action (Some next_state) of
                    Inl err \<Rightarrow> Some (Inl err)
                  | Inr Q2 \<Rightarrow>
                      max_loop fuel env reward_g eps alpha gamma nA Q2 next_state (score + reward) e1 g1)
               else
                 (case learn_max reward_g alpha gamma Q1 state action None of
                    Inl err \<Rightarrow> Some (Inl err)
                  | Inr Q2 \<Rightarrow> Some (Inr (Q2, score + reward, e1, g1)))))"

definition generate_sarsa_episode_max ::
  "nat \<Rightarrow> real option \<Rightarrow> 'e env \<Rightarrow> qtable \<Rightarrow> real \<Rightarrow> real \<Rightarrow> real \<Rightarrow> 'e \<Rightarrow> rng \<Rightarrow>
   (error + (qtable \<times> real \<times> 'e \<times> rng)) option" where
  "generate_sarsa_episode_max fuel reward_g env Q eps alpha gamma e g =
     (let nA = action_space_n env in
      case env_reset env e of
        (state, e1) \<Rightarrow> max_loop fuel env reward_g eps alpha gamma nA Q state 0 e1 g)"

text \<open>
  Expected SARSA: the loop of SARSAMAX with the calls
  \<open>update_sarsa_Q(eps, nA, alpha, gamma, Q, state, action, next_state)\<close> and
  \<open>update_sarsa_Q(eps, nA, alpha, gamma, Q, state, action)\<close>.
\<close>

fun expected_loop ::
  "nat \<Rightarrow> 'e env \<Rightarrow> real option \<Rightarrow> real \<Rightarrow> real \<Rightarrow> real \<Rightarrow> nat \<Rightarrow>
   qtable \<Rightarrow> state \<Rightarrow> real \<Rightarrow> 'e \<Rightarrow> rng \<Rightarrow> (error + (qtable \<times> real \<times> 'e \<times> rng)) option" where
  "expected_loop 0 env reward_g eps alpha gamma nA Q state score e g = None"
| "expected_loop (Suc fuel) env reward_g eps alpha gamma nA Q state score e g =
     (case eps_greedy eps Q state nA g of
        Inl err \<Rightarrow> Some (Inl err)
      | Inr (action, Q1, g1) \<Rightarrow>
          (case env_step env e action of
             ((next_state, reward, done), e1) \<Rightarrow>
               if \<not> done then
                 (case learn_expected reward_g eps nA alpha gamma Q1 state action (Some next_state) of
                    Inl err \<Rightarrow> Some (Inl err)
                  | Inr Q2 \<Rightarrow>
                      expected_loop fuel env reward_g eps alpha gamma nA Q2 next_state (score + reward) e1 g1)
               else
                 (case learn_expected reward_g eps nA alpha gamma Q1 state action None of
                    Inl err \<Rightarrow> Some (Inl err)
                  | Inr Q2 \<Rightarrow> Some (Inr (Q2, score + reward, e1, g1)))))"

definition generate_sarsa_episode_expected ::
  "nat \<Rightarrow> real option \<Rightarrow> 'e env \<Rightarrow> qtable \<Rightarrow> real \<Rightarrow> real \<Rightarrow> real \<Rightarrow> 'e \<Rightarrow> rng \<Rightarrow>
   (error + (qtable \<times> real \<times> 'e \<times> rng)) option" where
  "generate_sarsa_episode_expected fuel reward_g env Q eps alpha gamma e g =
     (let nA = action_space_n env in
      case env_reset env e of
        (state, e1) \<Rightarrow> expected_loop fuel env reward_g eps alpha gamma nA Q state 0 e1 g)"

subsection \<open>The training loop\<close>

text \<open>
  \<open>deque(maxlen=n)\<close> raises \<open>ValueError\<close> for a negative \<open>n\<close>; \<open>append\<close> on a full
  deque drops the oldest element first.
\<close>

definition deque_append :: "nat \<Rightarrow> real list \<Rightarrow> real \<Rightarrow> real list" where
  "deque_append maxlen xs x =
     (if maxlen = 0 then []
      else if length xs < maxlen then xs @ [x]
      else tl xs @ [x])"

definition mean :: "real list \<Rightarrow> real" where
  "mean xs = sum_list xs / real (length xs)"

text \<open>
  \<^verbatim>\<open>
  def train(env, num_episodes, eps=1.0, eps_min=0.01, eps_decay=0.9, alpha=0.01, gamma=1.0, plot_every=100):
      Q = defaultdict(lambda: np.zeros(env.action_space.n))
      ...
      all_rewards = []
      tmp_rewards = deque(maxlen=plot_every)
      avg_rewards = deque(maxlen=num_episodes)
      for i in range(1, num_episodes + 1):
          eps = max(eps * eps_decay, eps_min)
          Q, score = generate_sarsa_episode(env, Q, eps, alpha, gamma)
          all_rewards.append(score)
          tmp_rewards.append(score)
          ...
          if i % plot_every == 0:
              avg_rewards.append(np.mean(tmp_rewards))
      return Q, all_rewards, avg_rewards
  \<close>
  The text of \<open>train\<close> is the same in the three notebooks; what differs is the
  \<open>generate_sarsa_episode\<close> that the name is bound to, here the parameter \<open>run\<close>, which
  receives \<open>eps\<close>, \<open>alpha\<close>, \<open>gamma\<close> and the mutable objects. The progress report
  (\<open>print_every\<close> is at least 1) has no effect on the result and is left out.
\<close>

type_synonym 'e runner =
  "real \<Rightarrow> real \<Rightarrow> real \<Rightarrow> qtable \<Rightarrow> 'e \<Rightarrow> rng \<Rightarrow> (error + (qtable \<times> real \<times> 'e \<times> rng)) option"

fun train_loop ::
  "'e runner \<Rightarrow> nat list \<Rightarrow> nat \<Rightarrow> nat \<Rightarrow> real \<Rightarrow> real \<Rightarrow> real \<Rightarrow> real \<Rightarrow> real \<Rightarrow>
   qtable \<Rightarrow> real list \<Rightarrow> real list \<Rightarrow> real list \<Rightarrow> 'e \<Rightarrow> rng \<Rightarrow>
   (error + (qtable \<times> real list \<times> real list \<times> 'e \<times> rng)) option" where
  "train_loop run [] num_episodes plot_every eps eps_min eps_decay alpha gamma
     Q all_rewards tmp_rewards avg_rewards e g = Some (Inr (Q, all_rewards, avg_rewards, e, g))"
| "train_loop run (i # is) num_episodes plot_every eps eps_min eps_decay alpha gamma
     Q all_rewards tmp_rewards avg_rewards e g =
     (let eps1 = max (eps * eps_decay) eps_min in
      case run eps1 alpha gamma Q e g of
        None \<Rightarrow> None
      | Some (Inl err) \<Rightarrow> Some (Inl err)
      | Some (Inr (Q1, score, e1, g1)) \<Rightarrow>
          (let all_rewards1 = all_rewards @ [score];
               tmp_rewards1 = deque_append plot_every tmp_rewards score
           in if plot_every = 0 then Some (Inl ZeroDivisionError)
              else
                train_loop run is num_episodes plot_every eps1 eps_min eps_decay alpha gamma
                  Q1 all_rewards1 tmp_rewards1
                  (if i mod plot_every = 0
                   then deque_append num_episodes avg_rewards (mean tmp_rewards1)
                   else avg_rewards)
                  e1 g1))"

definition train ::
  "'e runner \<Rightarrow> 'e env \<Rightarrow> int \<Rightarrow> real \<Rightarrow> real \<Rightarrow> real \<Rightarrow> real \<Rightarrow> real \<Rightarrow> int \<Rightarrow> 'e \<Rightarrow> rng \<Rightarrow>
   (error + (qtable \<times> real list \<times> real list \<times> 'e \<times> rng)) option" where
  "train run env num_episodes eps eps_min eps_decay alpha gamma plot_every e g =
     (let Q = new_table (action_space_n env) in
      if plot_every < 0 then Some (Inl ValueError)
      else if num_episodes < 0 then Some (Inl ValueError)
      else
        train_loop run [1 ..< nat num_episodes + 1] (nat num_episodes) (nat plot_every)
          eps eps_min eps_decay alpha gamma Q [] [] [] e g)"

text \<open>The three notebooks' \<open>train\<close>, each with its own episode runner.\<close>

definition train_sarsa where
  "train_sarsa fuel reward_g env =
     train (\<lambda>eps alpha gamma Q. generate_sarsa_episode_sarsa fuel reward_g env Q eps alpha gamma) env"

definition train_max where
  "train_max fuel reward_g env =
     train (\<lambda>eps alpha gamma Q. generate_sarsa_episode_max fuel reward_g env Q eps alpha gamma) env"

definition train_expected where
  "train_expected fuel reward_g env =
     train (\<lambda>eps alpha gamma Q. generate_sarsa_episode_expected fuel reward_g env Q eps alpha gamma) env"

subsection \<open>The three variants under one signature\<close>

datatype variant = SARSA | SARSAMAX | EXPECTED_SARSA

text \<open>
  The values in scope where a runner calls \<open>update_sarsa_Q\<close> are \<open>eps\<close>, \<open>nA\<close>,
  \<open>alpha\<close>, \<open>gamma\<close>, \<open>Q\<close>, \<open>state\<close>, \<open>action\<close>, \<open>next_state\<close> and, in SARSA,
  \<open>next_action\<close>; each notebook's function is handed the ones it declares.
  \<open>next_action\<close> is not looked at on a terminal transition.
\<close>

definition target :: "variant \<Rightarrow> qtable \<Rightarrow> state option \<Rightarrow> real \<Rightarrow> nat \<Rightarrow> nat \<Rightarrow> error + (real \<times> qtable)" where
  "target var Q next_state eps nA next_action =
     (case var of
        SARSA \<Rightarrow> Qsa_sarsa Q (map_option (\<lambda>ns. (ns, next_action)) next_state)
      | SARSAMAX \<Rightarrow> Qsa_max Q next_state
      | EXPECTED_SARSA \<Rightarrow> Qsa_expected eps nA Q next_state)"

definition update_sarsa_Q ::
  "variant \<Rightarrow> real option \<Rightarrow> real \<Rightarrow> nat \<Rightarrow> real \<Rightarrow> real \<Rightarrow> qtable \<Rightarrow> state \<Rightarrow> nat \<Rightarrow>
   state option \<Rightarrow> nat \<Rightarrow> error + (real \<times> qtable)" where
  "update_sarsa_Q var reward_g eps nA alpha gamma Q state action next_state next_action =
     (case var of
        SARSA \<Rightarrow>
          update_sarsa_Q_sarsa reward_g alpha gamma Q state action
            (map_option (\<lambda>ns. (ns, next_action)) next_state)
      | SARSAMAX \<Rightarrow> update_sarsa_Q_max reward_g alpha gamma Q state action next_state
      | EXPECTED_SARSA \<Rightarrow> update_sarsa_Q_expected reward_g eps nA alpha gamma Q state action next_state)"

subsection \<open>The schedule of exploration rates\<close>

text \<open>
  The rate after \<open>i\<close> decays of the initial one, and the training loop with the rate
  of every episode written out: episode \<open>i\<close> of the list is run with the rate paired
  with it, and the bookkeeping is that of \<open>train\<close>.
\<close>

definition eps_of_episode :: "real \<Rightarrow> real \<Rightarrow> real \<Rightarrow> nat \<Rightarrow> real" where
  "eps_of_episode eps eps_decay eps_min i = ((decay_eps eps_decay eps_min) ^^ i) eps"

fun episodes_with ::
  "'e runner \<Rightarrow> (nat \<times> real) list \<Rightarrow> nat \<Rightarrow> nat \<Rightarrow> real \<Rightarrow> real \<Rightarrow>
   qtable \<Rightarrow> real list \<Rightarrow> real list \<Rightarrow> real list \<Rightarrow> 'e \<Rightarrow> rng \<Rightarrow>
   (error + (qtable \<times> real list \<times> real list \<times> 'e \<times> rng)) option" where
  "episodes_with run [] num_episodes plot_every alpha gamma
     Q all_rewards tmp_rewards avg_rewards e g = Some (Inr (Q, all_rewards, avg_rewards, e, g))"
| "episodes_with run ((i, eps_i) # rest) num_episodes plot_every alpha gamma
     Q all_rewards tmp_rewards avg_rewards e g =
     (case run eps_i alpha gamma Q e g of
        None \<Rightarrow> None
      | Some (Inl err) \<Rightarrow> Some (Inl err)
      | Some (Inr (Q1, score, e1, g1)) \<Rightarrow>
          if plot_every = 0 then Some (Inl ZeroDivisionError)
          else
            episodes_with run rest num_episodes plot_every alpha gamma
              Q1 (all_rewards @ [score]) (deque_append plot_every tmp_rewards score)
              (if i mod plot_every = 0
               then deque_append num_episodes avg_rewards
                      (mean (deque_append plot_every tmp_rewards score))
               else avg_rewards)
              e1 g1)"

subsection \<open>A small environment and generator to run the definitions on\<close>

text \<open>
  Three states and two actions: action 1 leads from state 0 to state 1 and from state 1
  to the terminal state 2, each with reward -1; action 0 leads back to state 0 with
  reward -10. The hidden state of the environment is the current state.
\<close>

definition stub_env :: "nat env" where
  "stub_env =
     \<lparr>action_space_n = 2,
      env_reset = (\<lambda>e. (0, 0)),
      env_step = (\<lambda>e a.
        if a = 1 then (if e = 0 then ((1, - 1, False), 1) else ((2, - 1, True), 2))
        else ((0, - 10, False), 0))\<rparr>"

text \<open>A generator that hands out the same variate forever.\<close>

definition const_rng :: "real \<Rightarrow> rng" where
  "const_rng u = (\<lambda>i. u)"

text \<open>A table with one stored vector.\<close>

definition table1 :: "nat \<Rightarrow> key \<Rightarrow> real list \<Rightarrow> qtable" where
  "table1 n k v = \<lparr>entries = [k \<mapsto> v], factory_n = n\<rparr>"

text \<open>The table that stores the listed vectors under the listed keys.\<close>

definition table_of :: "nat \<Rightarrow> (key \<times> real list) list \<Rightarrow> qtable" where
  "table_of n kvs = \<lparr>entries = map_of kvs, factory_n = n\<rparr>"

text \<open>
  An environment with two actions whose every step ends the episode in state 1 and
  pays \<open>r\<close>.
\<close>

definition one_step_env :: "real \<Rightarrow> nat env" where
  "one_step_env r =
     \<lparr>action_space_n = 2,
      env_reset = (\<lambda>e. (0, 0)),
      env_step = (\<lambda>e a. ((1, r, True), 1))\<rparr>"

text \<open>A table with vectors stored under \<open>None\<close>, 0 and 1.\<close>

definition table3 :: "nat \<Rightarrow> real list \<Rightarrow> real list \<Rightarrow> real list \<Rightarrow> qtable" where
  "table3 n vNone v0 v1 =
     \<lparr>entries = [None \<mapsto> vNone, Some 0 \<mapsto> v0, Some 1 \<mapsto> v1], factory_n = n\<rparr>"

text \<open>
  An episode runner that ends at once and reports the exploration rate it was called
  with as its score.
\<close>

definition probe_runner :: "nat runner" where
  "probe_runner eps alpha gamma Q e g = Some (Inr (Q, eps, e, g))"

section \<open>Properties\<close>

subsection \<open>Reading the table\<close>

lemma advance_const_rng [simp]: "advance (const_rng u) = const_rng u"
  by (simp add: advance_def const_rng_def)

lemma const_rng_apply [simp]: "const_rng u i = u"
  by (simp add: const_rng_def)

lemma peek_eq:
  "peek Q k = (case entries Q k of Some v \<Rightarrow> v | None \<Rightarrow> zeros (factory_n Q))"
  by (simp add: peek_def dd_get_def split: option.splits)

lemma touch_eq:
  "touch Q k =
     (if k \<in> dom (entries Q) then Q
      else Q\<lparr>entries := (entries Q)(k \<mapsto> zeros (factory_n Q))\<rparr>)"
  by (auto simp: touch_def dd_get_def split: option.splits)

lemma dd_get_eq: "dd_get Q k = (peek Q k, touch Q k)"
  by (simp add: peek_def touch_def)

lemma peek_touch [simp]: "peek (touch Q k) k' = peek Q k'"
  by (auto simp: peek_eq touch_eq domIff split: option.splits)

lemma factory_touch [simp]: "factory_n (touch Q k) = factory_n Q"
  by (simp add: touch_eq)

lemma dom_touch [simp]: "dom (entries (touch Q k)) = insert k (dom (entries Q))"
  by (auto simp: touch_eq)

lemma touch_idem [simp]: "touch (touch Q k) k = touch Q k"
  by (simp add: touch_eq)

lemma entries_touch_old:
  "entries Q k' = Some v \<Longrightarrow> entries (touch Q k) k' = Some v"
  by (auto simp: touch_eq)

lemma entries_touch_new:
  "entries Q k = None \<Longrightarrow> entries (touch Q k) k = Some (zeros (factory_n Q))"
  by (simp add: touch_eq domIff)

lemma entries_touch_other:
  "k' \<noteq> k \<Longrightarrow> entries (touch Q k) k' = entries Q k'"
  by (simp add: touch_eq)

lemma item_Inr: "item v i = Inr x \<longleftrightarrow> i < length v \<and> x = v ! i"
  by (auto simp: item_def)

lemma setitem_Inr:
  "setitem Q s a x = Inr Q' \<longleftrightarrow>
     a < length (peek Q (Some s)) \<and>
     Q' = (touch Q (Some s))
            \<lparr>entries := (entries (touch Q (Some s)))(Some s \<mapsto> (peek Q (Some s))[a := x])\<rparr>"
  by (auto simp: setitem_def dd_get_eq)

lemma setitem_props:
  assumes "setitem Q s a x = Inr Q'"
  shows "peek Q' (Some s) = (peek Q (Some s))[a := x]"
    and "k \<noteq> Some s \<Longrightarrow> peek Q' k = peek Q k"
    and "dom (entries Q') = insert (Some s) (dom (entries Q))"
    and "factory_n Q' = factory_n Q"
    and "k \<noteq> Some s \<Longrightarrow> entries Q' k = entries Q k"
proof -
  from assms have Q': "Q' = (touch Q (Some s))
            \<lparr>entries := (entries (touch Q (Some s)))(Some s \<mapsto> (peek Q (Some s))[a := x])\<rparr>"
    by (simp add: setitem_Inr)
  show "peek Q' (Some s) = (peek Q (Some s))[a := x]"
    unfolding Q' by (simp add: peek_eq)
  show f: "factory_n Q' = factory_n Q" unfolding Q' by simp
  show "dom (entries Q') = insert (Some s) (dom (entries Q))" unfolding Q' by auto
  show e: "k \<noteq> Some s \<Longrightarrow> entries Q' k = entries Q k"
    unfolding Q' by (simp add: entries_touch_other)
  show "k \<noteq> Some s \<Longrightarrow> peek Q' k = peek Q k"
    using e f by (simp add: peek_eq split: option.splits)
qed

lemma td_value_Inr:
  "td_value reward_g alpha gamma Q s a t = Inr (x, Q1) \<longleftrightarrow>
     (\<exists>reward. reward_g = Some reward \<and> a < length (peek Q (Some s))
        \<and> x = peek Q (Some s) ! a + alpha * (reward + gamma * t - peek Q (Some s) ! a)
        \<and> Q1 = touch Q (Some s))"
  by (auto simp: td_value_def dd_get_eq item_def split: option.splits)

lemma Qsa_sarsa_Inr:
  "Qsa_sarsa Q nxt = Inr (t, Q1) \<longleftrightarrow>
     (case nxt of
        None \<Rightarrow> t = 0 \<and> Q1 = Q
      | Some (ns, na) \<Rightarrow> na < length (peek Q (Some ns)) \<and> t = peek Q (Some ns) ! na
                         \<and> Q1 = touch Q (Some ns))"
  by (auto simp: Qsa_sarsa_def dd_get_eq item_def split: option.splits)

lemma Qsa_max_Inr:
  "Qsa_max Q next_state = Inr (t, Q1) \<longleftrightarrow>
     (\<exists>i. argmax (peek Q next_state) = Inr i \<and> Q1 = touch Q next_state
        \<and> (case next_state of
             None \<Rightarrow> t = 0
           | Some ns \<Rightarrow> i < length (peek Q (Some ns)) \<and> t = peek Q (Some ns) ! i))"
  by (cases next_state) (auto simp: Qsa_max_def dd_get_eq item_def split: sum.splits)

subsection \<open>Rounding\<close>

lemma round_even_of_int [simp]: "round_even (of_int m) = m"
  by (simp add: round_even_def)

lemma round_even_error: "\<bar>of_int (round_even y) - y\<bar> \<le> 1/2"
proof -
  have "of_int \<lfloor>y\<rfloor> \<le> y" "y < of_int \<lfloor>y\<rfloor> + 1" by linarith+
  then show ?thesis by (auto simp: round_even_def Let_def)
qed

lemma floor_log2_bounds:
  assumes "x \<noteq> 0"
  shows "2 powi \<lfloor>log 2 \<bar>x\<bar>\<rfloor> \<le> \<bar>x\<bar>" and "\<bar>x\<bar> < 2 powi (\<lfloor>log 2 \<bar>x\<bar>\<rfloor> + 1)"
proof -
  have pos: "0 < \<bar>x\<bar>" using assms by simp
  from floor_log_eq_powr_iff [OF pos, of 2 "\<lfloor>log 2 \<bar>x\<bar>\<rfloor>"]
  have "2 powr real_of_int \<lfloor>log 2 \<bar>x\<bar>\<rfloor> \<le> \<bar>x\<bar>"
    and "\<bar>x\<bar> < 2 powr (real_of_int \<lfloor>log 2 \<bar>x\<bar>\<rfloor> + 1)" by simp_all
  then show "2 powi \<lfloor>log 2 \<bar>x\<bar>\<rfloor> \<le> \<bar>x\<bar>" and "\<bar>x\<bar> < 2 powi (\<lfloor>log 2 \<bar>x\<bar>\<rfloor> + 1)"
    using powr_real_of_int' [of 2 "\<lfloor>log 2 \<bar>x\<bar>\<rfloor>"] powr_real_of_int' [of 2 "\<lfloor>log 2 \<bar>x\<bar>\<rfloor> + 1"]
    by simp_all
qed

lemma floor_log2_eqI:
  assumes "2 powi k \<le> \<bar>x\<bar>" and "\<bar>x\<bar> < 2 powi (k + 1)"
  shows "\<lfloor>log 2 \<bar>x\<bar>\<rfloor> = k"
proof -
  have "(0::real) < 2 powi k" by simp
  then have pos: "0 < \<bar>x\<bar>" using assms(1) by linarith
  have "2 powr real_of_int k \<le> \<bar>x\<bar> \<and> \<bar>x\<bar> < 2 powr (real_of_int k + 1)"
    using assms powr_real_of_int' [of 2 k] powr_real_of_int' [of 2 "k + 1"] by simp
  then show ?thesis using floor_log_eq_powr_iff [OF pos, of 2 k] by simp
qed

lemma fl_eval:
  assumes "2 powi k \<le> \<bar>x\<bar>" and "\<bar>x\<bar> < 2 powi (k + 1)"
  shows "fl x = of_int (round_even (x * 2 powi (52 - k))) * 2 powi (k - 52)"
proof -
  have "(0::real) < 2 powi k" by simp
  then have "0 < \<bar>x\<bar>" using assms(1) by linarith
  then have "x \<noteq> 0" by auto
  then show ?thesis by (simp add: fl_def floor_log2_eqI [OF assms])
qed

lemma fl_zero [simp]: "fl 0 = 0"
  by (simp add: fl_def)

lemma fl_error: "\<bar>fl x - x\<bar> \<le> unit_roundoff * \<bar>x\<bar>"
proof (cases "x = 0")
  case True
  then show ?thesis by simp
next
  case False
  define k where "k = \<lfloor>log 2 \<bar>x\<bar>\<rfloor>"
  define y where "y = x * 2 powi (52 - k)"
  have lo: "2 powi k \<le> \<bar>x\<bar>" using floor_log2_bounds(1) [OF False] by (simp add: k_def)
  have x: "x = y * 2 powi (k - 52)"
    by (simp add: y_def power_int_add [symmetric] flip: power_int_add)
  have flx: "fl x = of_int (round_even y) * 2 powi (k - 52)"
    using False by (simp add: fl_def k_def y_def)
  have "fl x - x = of_int (round_even y) * 2 powi (k - 52) - y * 2 powi (k - 52)"
    by (metis flx x)
  then have "fl x - x = (of_int (round_even y) - y) * 2 powi (k - 52)"
    by (simp add: left_diff_distrib)
  then have "\<bar>fl x - x\<bar> = \<bar>of_int (round_even y) - y\<bar> * 2 powi (k - 52)"
    by (simp add: abs_mult)
  also have "\<dots> \<le> 1/2 * 2 powi (k - 52)"
    by (intro mult_right_mono round_even_error) simp
  also have "\<dots> = unit_roundoff * 2 powi k"
    by (simp add: unit_roundoff_def power_int_diff)
  also have "\<dots> \<le> unit_roundoff * \<bar>x\<bar>"
    using lo by (intro mult_left_mono) (simp_all add: unit_roundoff_def)
  finally show ?thesis .
qed


lemma fl_exact:
  assumes "\<bar>m\<bar> < 2 ^ 53"
  shows "fl (of_int m * 2 powi e) = of_int m * 2 powi e"
proof (cases "m = 0")
  case True
  then show ?thesis by simp
next
  case False
  define x :: real where "x = of_int m * 2 powi e"
  define k where "k = \<lfloor>log 2 \<bar>x\<bar>\<rfloor>"
  have x0: "x \<noteq> 0" using False by (simp add: x_def)
  have lo: "2 powi k \<le> \<bar>x\<bar>" using floor_log2_bounds(1) [OF x0] by (simp add: k_def)
  have "\<bar>x\<bar> = of_int \<bar>m\<bar> * 2 powi e" by (simp add: x_def abs_mult)
  also have "\<dots> < 2 ^ 53 * 2 powi e"
  proof (rule mult_strict_right_mono)
    have "real_of_int \<bar>m\<bar> < real_of_int (2 ^ 53)" using assms by (simp only: of_int_less_iff)
    then show "real_of_int \<bar>m\<bar> < 2 ^ 53" by simp
    show "(0::real) < 2 powi e" by simp
  qed
  also have "\<dots> = 2 powi (53 + e)" by (simp add: power_int_add)
  finally have lt: "(2::real) powi k < 2 powi (53 + e)" using lo by linarith
  have "k < 53 + e"
  proof (rule ccontr)
    assume "\<not> k < 53 + e"
    then have "53 + e \<le> k" by simp
    then have "(2::real) powi (53 + e) \<le> 2 powi k" by (rule power_int_increasing) simp
    then show False using lt by linarith
  qed
  then have n: "0 \<le> e + 52 - k" by simp
  define n where "n = nat (e + 52 - k)"
  have e: "e + 52 - k = int n" using n by (simp add: n_def)
  have "x * 2 powi (52 - k) = of_int m * 2 powi (e + (52 - k))"
    by (simp add: x_def power_int_add)
  also have "e + (52 - k) = int n" using e by simp
  also have "of_int m * (2::real) powi (int n) = of_int (m * 2 ^ n)" by simp
  finally have y: "x * 2 powi (52 - k) = of_int (m * 2 ^ n)" .
  have "fl x = of_int (m * 2 ^ n) * 2 powi (k - 52)"
    using x0 by (simp add: fl_def k_def [symmetric] y del: of_int_mult of_int_power)
  also have "\<dots> = of_int m * (2 powi (int n) * 2 powi (k - 52))" by simp
  also have "2 powi (int n) * 2 powi (k - 52) = (2::real) powi (int n + (k - 52))"
    by (simp add: power_int_add)
  also have "int n + (k - 52) = e" using e by simp
  finally show ?thesis by (simp add: x_def)
qed

lemma fl_half [simp]: "fl (1/2) = 1/2"
  using fl_exact [of 1 "- 1"] by simp

lemma fl_one [simp]: "fl 1 = 1"
  using fl_exact [of 1 0] by simp

subsection \<open>The parts of the update\<close>

lemma argmax_from_spec:
  assumes "length pre = i" "best < i" "pre ! best = bv"
    and "\<forall>x\<in>set pre. x \<le> bv" and "\<forall>j<best. pre ! j < bv"
  shows "argmax_from xs i best bv < length (pre @ xs)
       \<and> (\<forall>x\<in>set (pre @ xs). x \<le> (pre @ xs) ! argmax_from xs i best bv)
       \<and> (\<forall>j<argmax_from xs i best bv. (pre @ xs) ! j < (pre @ xs) ! argmax_from xs i best bv)"
  using assms
proof (induction xs arbitrary: pre i best bv)
  case Nil
  then show ?case by simp
next
  case (Cons x xs)
  show ?case
  proof (cases "bv < x")
    case True
    have a: "length (pre @ [x]) = Suc i" using Cons.prems by simp
    have b: "i < Suc i" by simp
    have c: "(pre @ [x]) ! i = x" using Cons.prems by (simp add: nth_append)
    have d: "\<forall>y\<in>set (pre @ [x]). y \<le> x" using Cons.prems True by fastforce
    have e: "\<forall>j<i. (pre @ [x]) ! j < x"
    proof (intro allI impI)
      fix j assume j: "j < i"
      then have "pre ! j \<in> set pre" using Cons.prems by simp
      then have "pre ! j \<le> bv" using Cons.prems by blast
      then have "pre ! j < x" using True by linarith
      then show "(pre @ [x]) ! j < x" using j Cons.prems(1) by (simp add: nth_append)
    qed
    from Cons.IH [OF a b c d e] True show ?thesis by simp
  next
    case False
    have a: "length (pre @ [x]) = Suc i" using Cons.prems by simp
    have b: "best < Suc i" using Cons.prems by simp
    have c: "(pre @ [x]) ! best = bv" using Cons.prems by (simp add: nth_append)
    have d: "\<forall>y\<in>set (pre @ [x]). y \<le> bv" using Cons.prems False by fastforce
    have e: "\<forall>j<best. (pre @ [x]) ! j < bv" using Cons.prems by (simp add: nth_append)
    from Cons.IH [OF a b c d e] False show ?thesis by simp
  qed
qed

lemma argmax_Inr:
  assumes "argmax v = Inr i"
  shows "i < length v" and "v ! i = Max (set v)" and "\<forall>j<i. v ! j < v ! i"
proof -
  from assms obtain x xs where v: "v = x # xs" and i: "i = argmax_from xs 1 0 x"
    by (auto simp: argmax_def split: list.splits)
  have s: "i < length ([x] @ xs) \<and> (\<forall>y\<in>set ([x] @ xs). y \<le> ([x] @ xs) ! i)
       \<and> (\<forall>j<i. ([x] @ xs) ! j < ([x] @ xs) ! i)"
    unfolding i by (rule argmax_from_spec) simp_all
  then show l: "i < length v" and "\<forall>j<i. v ! j < v ! i" by (simp_all add: v)
  have "\<forall>y\<in>set v. y \<le> v ! i" using s by (simp add: v)
  moreover have "v ! i \<in> set v" using l by simp
  ultimately show "v ! i = Max (set v)"
    by (metis List.finite_set Max_eqI)
qed

lemma argmax_nonempty: "v \<noteq> [] \<Longrightarrow> \<exists>i. argmax v = Inr i"
  by (cases v) (simp_all add: argmax_def)

lemma argmax_Inl: "argmax v = Inl e \<longleftrightarrow> v = [] \<and> e = ValueError"
  by (cases v) (auto simp: argmax_def)


lemma sum_list_update_real:
  "k < length xs \<Longrightarrow> sum_list (xs[k := x]) = sum_list xs + x - (xs ! k :: real)"
proof (induction xs arbitrary: k)
  case Nil
  then show ?case by simp
next
  case (Cons y ys)
  then show ?case by (cases k) simp_all
qed

lemma policy_expected_eq:
  "policy_expected eps nA Q ns =
     (if nA = 0 then Inl ZeroDivisionError
      else case argmax (peek Q (Some ns)) of
             Inl e \<Rightarrow> Inl e
           | Inr i \<Rightarrow>
               if i < nA
               then Inr ((replicate nA (fl (fl (1 * eps) / real nA)))
                           [i := fl (fl (1 - eps) + fl (eps / real nA))],
                         touch Q (Some ns))
               else Inl IndexError)"
  by (simp add: policy_expected_def dd_get_eq Let_def split: sum.splits)

lemma Qsa_expected_Inr:
  "Qsa_expected eps nA Q next_state = Inr (t, Q1) \<longleftrightarrow>
     (case next_state of
        None \<Rightarrow> t = 0 \<and> Q1 = Q
      | Some ns \<Rightarrow>
          (\<exists>p. policy_expected eps nA Q ns = Inr (p, touch Q (Some ns))
             \<and> length (peek Q (Some ns)) = length p
             \<and> t = (\<Sum>(x, y)\<leftarrow>zip (peek Q (Some ns)) p. x * y)
             \<and> Q1 = touch Q (Some ns)))"
proof (cases next_state)
  case None
  then show ?thesis by (auto simp: Qsa_expected_def)
next
  case (Some ns)
  show ?thesis unfolding Some
    by (auto simp: Qsa_expected_def policy_expected_eq dd_get_eq dot_def
        split: sum.splits if_splits)
qed

text \<open>The definitions that a run on concrete values unfolds.\<close>

lemmas run_defs =
  eps_greedy_def np_rand_def np_randint_def dd_get_def zeros_def argmax_def item_def dot_def
  setitem_def td_value_def Qsa_sarsa_def Qsa_max_def Qsa_expected_def policy_expected_def
  update_sarsa_Q_sarsa_def update_sarsa_Q_max_def update_sarsa_Q_expected_def
  learn_sarsa_def learn_max_def learn_expected_def new_table_def table1_def stub_env_def
  generate_sarsa_episode_sarsa_def generate_sarsa_episode_max_def
  generate_sarsa_episode_expected_def

lemmas variant_defs = target_def update_sarsa_Q_def

lemmas train_defs = train_def train_sarsa_def train_max_def train_expected_def
  deque_append_def mean_def

subsection \<open>The selector and the table\<close>

text \<open>
  C6, as the code has it. The selector never changes a stored vector, and a read of any
  key gives the same vector after the call as before. It does change the dictionary in
  one case: on the greedy branch (the draw is not below \<open>eps\<close>) with a state that has
  no entry, \<open>Q[state]\<close> binds that state to a fresh zero vector. On the exploring
  branch, and for a state that has an entry, the table after the call is the table
  before it.
\<close>

theorem eps_greedy_table_effect:
  assumes "eps_greedy eps Q state nA g = Inr (a, Q', g')"
  shows "Q' = (if g 0 < eps \<or> Some state \<in> dom (entries Q) then Q
               else Q\<lparr>entries := (entries Q)(Some state \<mapsto> zeros (factory_n Q))\<rparr>)
       \<and> (\<forall>k. peek Q' k = peek Q k)
       \<and> (\<forall>k v. entries Q k = Some v \<longrightarrow> entries Q' k = Some v)"
proof -
  have 1: "Q' = (if g 0 < eps then Q else touch Q (Some state))"
    using assms
    by (auto simp: eps_greedy_def np_rand_def dd_get_eq split: if_splits sum.splits)
  show ?thesis
  proof (cases "g 0 < eps")
    case True
    then show ?thesis using 1 by simp
  next
    case False
    then have Q': "Q' = touch Q (Some state)" using 1 by simp
    have a: "Q' = (if g 0 < eps \<or> Some state \<in> dom (entries Q) then Q
               else Q\<lparr>entries := (entries Q)(Some state \<mapsto> zeros (factory_n Q))\<rparr>)"
      unfolding Q' using False by (simp add: touch_eq)
    have b: "\<forall>k. peek Q' k = peek Q k" unfolding Q' by simp
    have c: "\<forall>k v. entries Q k = Some v \<longrightarrow> entries Q' k = Some v"
      unfolding Q' by (simp add: entries_touch_old)
    show ?thesis using a b c by blast
  qed
qed

theorem eps_greedy_table_effect_witness:
  "eps_greedy 0 (new_table 2) 0 2 (const_rng (1/2))
     = Inr (0, table1 2 (Some 0) [0, 0], const_rng (1/2))
   \<and> peek (table1 2 (Some 0) [0, 0]) (Some 0) = peek (new_table 2) (Some 0)"
proof -
  have e: "eps_greedy 0 (new_table 2) 0 2 (const_rng (1/2))
     = Inr (0, table1 2 (Some 0) [0, 0], const_rng (1/2))"
    by (simp add: eps_greedy_def np_rand_def dd_get_def new_table_def zeros_def argmax_def
        table1_def numeral_2_eq_2)
  from eps_greedy_table_effect [OF e] show ?thesis using e by blast
qed

text \<open>
  C6 as stated fails: with \<open>eps = 0\<close> on an empty table with two actions, the call for
  state 0 returns action 0 and leaves the table with an entry for state 0.
\<close>

theorem eps_greedy_mutates_table_counterexample:
  "eps_greedy 0 (new_table 2) 0 2 (const_rng (1/2))
     = Inr (0, table1 2 (Some 0) [0, 0], const_rng (1/2))
   \<and> table1 2 (Some 0) [0, 0] \<noteq> new_table 2"
proof -
  have "entries (table1 2 (Some 0) [0, 0]) (Some 0) \<noteq> entries (new_table 2) (Some 0)"
    by (simp add: new_table_def table1_def)
  then have "table1 2 (Some 0) [0, 0] \<noteq> new_table 2"
    by metis
  then show ?thesis
    by (simp add: eps_greedy_def np_rand_def dd_get_def new_table_def zeros_def argmax_def
        table1_def numeral_2_eq_2)
qed

subsection \<open>The decay of the exploration rate\<close>

lemma max_times_pos: "0 < (d::real) \<Longrightarrow> max a m * d = max (a * d) (m * d)"
  by (simp add: max_def)

lemma max_absorb_floor: "m * d \<le> (m::real) \<Longrightarrow> max (max x (m * d)) m = max x m"
  by (simp add: max_def)

lemma decay_eps_funpow:
  assumes d: "0 < d" "d < 1" and m: "0 < m"
  shows "((decay_eps d m) ^^ Suc k) e = max (e * d ^ Suc k) m"
proof (induction k)
  case 0
  show ?case by (simp add: decay_eps_def)
next
  case (Suc k)
  have md: "m * d \<le> m" using d m by simp
  have "((decay_eps d m) ^^ Suc (Suc k)) e = decay_eps d m (max (e * d ^ Suc k) m)"
    using Suc.IH by simp
  also have "\<dots> = max (max (e * d ^ Suc k) m * d) m"
    by (simp add: decay_eps_def)
  also have "\<dots> = max (max (e * d ^ Suc k * d) (m * d)) m"
    using d(1) by (simp only: max_times_pos)
  also have "\<dots> = max (e * d ^ Suc k * d) m"
    using md by (rule max_absorb_floor)
  also have "e * d ^ Suc k * d = e * d ^ Suc (Suc k)"
    by (simp add: mult.assoc mult.commute)
  finally show ?case .
qed

lemma decay_small:
  assumes d: "0 < d" "d < 1" and m: "0 < (m::real)"
  shows "\<exists>n. \<forall>k\<ge>n. e * d ^ k \<le> m"
proof (cases "e \<le> 0")
  case True
  have "\<forall>k\<ge>0. e * d ^ k \<le> m"
  proof (intro allI impI)
    fix k :: nat
    have "e * d ^ k \<le> 0" using True d by (simp add: mult_nonpos_nonneg)
    then show "e * d ^ k \<le> m" using m by linarith
  qed
  then show ?thesis by blast
next
  case False
  then have e: "0 < e" by simp
  then have "0 < m / e" using m by simp
  then obtain n where n: "d ^ n < m / e" using real_arch_pow_inv [of "m / e" d] d by blast
  have "\<forall>k\<ge>n. e * d ^ k \<le> m"
  proof (intro allI impI)
    fix k assume "n \<le> k"
    then have "d ^ k \<le> d ^ n" using d by (simp add: power_decreasing)
    then have "d ^ k < m / e" using n by linarith
    then have "e * d ^ k < m" using e by (simp add: pos_less_divide_eq mult.commute)
    then show "e * d ^ k \<le> m" by simp
  qed
  then show ?thesis by blast
qed

text \<open>
  C8. For a decay factor in (0, 1), a floor \<open>eps_min > 0\<close> and any starting rate, there
  is a number of applications of \<open>eps := max(eps * eps_decay, eps_min)\<close> from which on
  the rate is exactly \<open>eps_min\<close>; \<open>eps_min\<close> is a fixed point of the step, so every
  further application returns it.
\<close>

theorem decay_eps_reaches_floor:
  assumes "0 < eps_decay" "eps_decay < 1" "0 < eps_min"
  shows "(\<exists>n. \<forall>k\<ge>n. ((decay_eps eps_decay eps_min) ^^ k) eps = eps_min)
       \<and> decay_eps eps_decay eps_min eps_min = eps_min
       \<and> (\<forall>j. ((decay_eps eps_decay eps_min) ^^ j) eps_min = eps_min)"
proof (intro conjI)
  obtain n where n: "\<forall>k\<ge>n. eps * eps_decay ^ k \<le> eps_min"
    using decay_small [OF assms] by blast
  have "\<forall>k\<ge>Suc n. ((decay_eps eps_decay eps_min) ^^ k) eps = eps_min"
  proof (intro allI impI)
    fix k assume k: "Suc n \<le> k"
    then obtain k' where k': "k = Suc k'" by (cases k) auto
    have "eps * eps_decay ^ k \<le> eps_min" using n k by simp
    then show "((decay_eps eps_decay eps_min) ^^ k) eps = eps_min"
      unfolding k' decay_eps_funpow [OF assms] by (simp add: max_def)
  qed
  then show "\<exists>n. \<forall>k\<ge>n. ((decay_eps eps_decay eps_min) ^^ k) eps = eps_min" by blast
next
  show fp: "decay_eps eps_decay eps_min eps_min = eps_min"
    using assms by (simp add: decay_eps_def max_def)
  show "\<forall>j. ((decay_eps eps_decay eps_min) ^^ j) eps_min = eps_min"
  proof
    fix j show "((decay_eps eps_decay eps_min) ^^ j) eps_min = eps_min"
      by (induction j) (simp_all add: fp)
  qed
qed

theorem decay_eps_reaches_floor_witness:
  "(0::real) < 9/10 \<and> (9/10::real) < 1 \<and> (0::real) < 1/100
   \<and> (\<exists>n. \<forall>k\<ge>n. ((decay_eps (9/10) (1/100)) ^^ k) 1 = 1/100)
   \<and> decay_eps (9/10) (1/100) (1/100) = 1/100"
  using decay_eps_reaches_floor [of "9/10" "1/100" 1] by simp

subsection \<open>The key \<open>None\<close> in the SARSAMAX table\<close>

lemma update_max_terminal_table:
  assumes "update_sarsa_Q_max reward_g alpha gamma Q state action None = Inr (x, Q')"
  shows "Q' = touch (touch Q None) (Some state)"
  using assms
  by (auto simp: update_sarsa_Q_max_def Qsa_max_Inr td_value_Inr split: sum.splits)

lemma learn_max_terminal_None:
  assumes "learn_max reward_g alpha gamma Q state action None = Inr Q'"
  shows "None \<in> dom (entries Q')"
proof -
  from assms obtain x Q1 where
    u: "update_sarsa_Q_max reward_g alpha gamma Q state action None = Inr (x, Q1)"
    and s: "setitem Q1 state action x = Inr Q'"
    by (auto simp: learn_max_def split: sum.splits)
  have "None \<in> dom (entries Q1)"
    unfolding update_max_terminal_table [OF u] by simp
  then show ?thesis using setitem_props(3) [OF s] by simp
qed

lemma max_loop_None_key:
  "max_loop fuel env reward_g eps alpha gamma nA Q state score e g = Some (Inr (Q', score', e', g'))
   \<Longrightarrow> None \<in> dom (entries Q')"
proof (induction fuel arbitrary: Q state score e g)
  case 0
  then show ?case by simp
next
  case (Suc fuel)
  from Suc.prems show ?case
    by (auto split: sum.splits prod.splits if_splits
        dest: learn_max_terminal_None Suc.IH)
qed

text \<open>
  C10. In SARSAMAX, a terminal call \<open>update_sarsa_Q(alpha, gamma, Q, state, action)\<close>
  that returns has evaluated \<open>Q[None]\<close> before the test for \<open>None\<close>: the table it
  leaves has the key \<open>None\<close>, bound to a zero vector if the key was new. Every episode
  that completes ends with such a call, so the table it returns has the key \<open>None\<close>,
  which is no state of the environment.
\<close>

theorem sarsamax_terminal_update_inserts_None:
  "(update_sarsa_Q_max reward_g alpha gamma Q state action None = Inr (x, Q1) \<longrightarrow>
      None \<in> dom (entries Q1)
      \<and> (entries Q None = None \<longrightarrow> entries Q1 None = Some (zeros (factory_n Q))))
   \<and> (generate_sarsa_episode_max fuel reward_g env Q eps alpha gamma e g
        = Some (Inr (Q', score, e', g')) \<longrightarrow> None \<in> dom (entries Q'))"
proof (intro conjI impI)
  assume u: "update_sarsa_Q_max reward_g alpha gamma Q state action None = Inr (x, Q1)"
  show "None \<in> dom (entries Q1)"
    unfolding update_max_terminal_table [OF u] by simp
  assume "entries Q None = None"
  then show "entries Q1 None = Some (zeros (factory_n Q))"
    unfolding update_max_terminal_table [OF u]
    by (simp add: entries_touch_other entries_touch_new)
next
  assume "generate_sarsa_episode_max fuel reward_g env Q eps alpha gamma e g
        = Some (Inr (Q', score, e', g'))"
  then show "None \<in> dom (entries Q')"
    by (auto simp: generate_sarsa_episode_max_def split: prod.splits dest: max_loop_None_key)
qed


theorem sarsamax_terminal_update_inserts_None_witness:
  "(\<exists>Q1. update_sarsa_Q_max (Some (- 1)) (1/2) 1 (new_table 2) 0 1 None = Inr (- (1/2), Q1)
      \<and> entries (new_table 2) None = None
      \<and> entries Q1 None = Some (zeros 2))
   \<and> (\<exists>Q'. generate_sarsa_episode_max 2 (Some (- 1)) stub_env (new_table 2) 1 (1/2) 1 0
               (const_rng (3/5)) = Some (Inr (Q', - 2, 2, const_rng (3/5)))
         \<and> None \<in> dom (entries Q'))"
proof -
  obtain Q1 where 1: "update_sarsa_Q_max (Some (- 1)) (1/2) 1 (new_table 2) 0 1 None = Inr (- (1/2), Q1)"
    by (simp add: run_defs numeral_2_eq_2)
  obtain Q' where 2: "generate_sarsa_episode_max 2 (Some (- 1)) stub_env (new_table 2) 1 (1/2) 1 0
               (const_rng (3/5)) = Some (Inr (Q', - 2, 2, const_rng (3/5)))"
    by (simp add: run_defs numeral_2_eq_2)
  have 3: "entries (new_table 2) None = None" by (simp add: new_table_def)
  from sarsamax_terminal_update_inserts_None
         [of "Some (- 1)" "1/2" 1 "new_table 2" 0 1 "- (1/2)" Q1 2 stub_env 1 0 "const_rng (3/5)"
             Q' "- 2" 2 "const_rng (3/5)"]
       1 2 3
  show ?thesis by (simp add: new_table_def)
qed

subsection \<open>The bootstrap values\<close>

text \<open>
  C3. For a non-terminal \<open>next_state\<close> whose vector is not empty, the SARSAMAX
  bootstrap value is the largest entry of \<open>Q[next_state]\<close>, that is the maximum of
  \<open>Q[next_state][a]\<close> over the actions \<open>a\<close>. The SARSAMAX function has no parameter
  for the exploration rate, so the value and the whole update are the same for any two
  rates. The other two variants differ: on the table \<open>{0: [1, 3]}\<close> the
  Expected-SARSA value is 3 for \<open>eps = 0\<close> and 2 for \<open>eps = 1\<close>, and the selector gives
  SARSA the next action 1 for \<open>eps = 0\<close> and 0 for \<open>eps = 1\<close> (on the draw 1/4),
  hence the values 3 and 1.
\<close>

theorem sarsamax_target_is_max:
  assumes "peek Q (Some ns) \<noteq> []"
  shows "target SARSAMAX Q (Some ns) eps nA na = Inr (Max (set (peek Q (Some ns))), touch Q (Some ns))
       \<and> target SARSAMAX Q (Some ns) eps nA na = target SARSAMAX Q (Some ns) eps' nA na
       \<and> update_sarsa_Q SARSAMAX reward_g eps nA alpha gamma Q state action (Some ns) na
           = update_sarsa_Q SARSAMAX reward_g eps' nA alpha gamma Q state action (Some ns) na
       \<and> target EXPECTED_SARSA (table1 2 (Some 0) [1, 3]) (Some 0) 0 2 0
           = Inr (3, table1 2 (Some 0) [1, 3])
       \<and> target EXPECTED_SARSA (table1 2 (Some 0) [1, 3]) (Some 0) 1 2 0
           = Inr (2, table1 2 (Some 0) [1, 3])
       \<and> eps_greedy 0 (table1 2 (Some 0) [1, 3]) 0 2 (const_rng (1/4))
           = Inr (1, table1 2 (Some 0) [1, 3], const_rng (1/4))
       \<and> eps_greedy 1 (table1 2 (Some 0) [1, 3]) 0 2 (const_rng (1/4))
           = Inr (0, table1 2 (Some 0) [1, 3], const_rng (1/4))
       \<and> target SARSA (table1 2 (Some 0) [1, 3]) (Some 0) 0 2 1
           = Inr (3, table1 2 (Some 0) [1, 3])
       \<and> target SARSA (table1 2 (Some 0) [1, 3]) (Some 0) 1 2 0
           = Inr (1, table1 2 (Some 0) [1, 3])"
proof -
  obtain i where i: "argmax (peek Q (Some ns)) = Inr i"
    using assms argmax_nonempty by blast
  have m: "target SARSAMAX Q (Some ns) eps nA na
             = Inr (Max (set (peek Q (Some ns))), touch Q (Some ns))"
    using i argmax_Inr(1,2) [OF i] by (simp add: target_def Qsa_max_Inr)
  have e1: "target SARSAMAX Q (Some ns) eps nA na = target SARSAMAX Q (Some ns) eps' nA na"
    by (simp add: target_def)
  have e2: "update_sarsa_Q SARSAMAX reward_g eps nA alpha gamma Q state action (Some ns) na
           = update_sarsa_Q SARSAMAX reward_g eps' nA alpha gamma Q state action (Some ns) na"
    by (simp add: update_sarsa_Q_def)
  have x1: "target EXPECTED_SARSA (table1 2 (Some 0) [1, 3]) (Some 0) 0 2 0
           = Inr (3, table1 2 (Some 0) [1, 3])"
    by (simp add: variant_defs run_defs numeral_2_eq_2)
  have x2: "target EXPECTED_SARSA (table1 2 (Some 0) [1, 3]) (Some 0) 1 2 0
           = Inr (2, table1 2 (Some 0) [1, 3])"
    by (simp add: variant_defs run_defs numeral_2_eq_2)
  have g1: "eps_greedy 0 (table1 2 (Some 0) [1, 3]) 0 2 (const_rng (1/4))
           = Inr (1, table1 2 (Some 0) [1, 3], const_rng (1/4))"
    by (simp add: run_defs)
  have g2: "eps_greedy 1 (table1 2 (Some 0) [1, 3]) 0 2 (const_rng (1/4))
           = Inr (0, table1 2 (Some 0) [1, 3], const_rng (1/4))"
    by (simp add: run_defs)
  have s1: "target SARSA (table1 2 (Some 0) [1, 3]) (Some 0) 0 2 1
           = Inr (3, table1 2 (Some 0) [1, 3])"
    by (simp add: variant_defs run_defs)
  have s2: "target SARSA (table1 2 (Some 0) [1, 3]) (Some 0) 1 2 0
           = Inr (1, table1 2 (Some 0) [1, 3])"
    by (simp add: variant_defs run_defs)
  show ?thesis using m e1 e2 x1 x2 g1 g2 s1 s2 by blast
qed

theorem sarsamax_target_is_max_witness:
  "peek (table1 2 (Some 0) [1, 3]) (Some 0) \<noteq> []
   \<and> target SARSAMAX (table1 2 (Some 0) [1, 3]) (Some 0) 0 2 0
       = Inr (3, table1 2 (Some 0) [1, 3])
   \<and> target SARSAMAX (table1 2 (Some 0) [1, 3]) (Some 0) 1 2 0
       = Inr (3, table1 2 (Some 0) [1, 3])"
proof -
  have p: "peek (table1 2 (Some 0) [1, 3]) (Some 0) = [1, 3]"
    by (simp add: peek_eq table1_def)
  have h: "peek (table1 2 (Some 0) [1, 3]) (Some 0) \<noteq> []" by (simp add: p)
  have t: "touch (table1 2 (Some 0) [1, 3]) (Some 0) = table1 2 (Some 0) [1, 3]"
    by (simp add: touch_eq table1_def)
  from sarsamax_target_is_max
         [OF h, where eps = 0 and eps' = 1 and nA = 2 and na = 0 and reward_g = None
            and alpha = 0 and gamma = 0 and state = 0 and action = 0]
  have "target SARSAMAX (table1 2 (Some 0) [1, 3]) (Some 0) 0 2 0
          = Inr (Max (set (peek (table1 2 (Some 0) [1, 3]) (Some 0))),
                 touch (table1 2 (Some 0) [1, 3]) (Some 0))"
    and "target SARSAMAX (table1 2 (Some 0) [1, 3]) (Some 0) 0 2 0
          = target SARSAMAX (table1 2 (Some 0) [1, 3]) (Some 0) 1 2 0"
    by blast+
  then show ?thesis using h by (simp add: p t)
qed

lemma sum_list_replicate_update:
  assumes "i < n"
  shows "sum_list ((replicate n (c::real))[i := d]) = real n * c + d - c"
  using assms by (simp add: sum_list_update_real sum_list_replicate)

lemma fl_nonneg: "0 \<le> x \<Longrightarrow> 0 \<le> fl x"
proof -
  assume x: "0 \<le> x"
  have u: "unit_roundoff \<le> 1" by (simp add: unit_roundoff_def)
  have "\<bar>fl x - x\<bar> \<le> unit_roundoff * x" using fl_error [of x] x by simp
  also have "\<dots> \<le> 1 * x" using u x by (intro mult_right_mono) simp_all
  finally show ?thesis by linarith
qed

lemma rounded_policy_bounds:
  fixes a b c b' g :: real
  assumes a: "0 \<le> a" and b: "0 \<le> b" and ab: "a + b \<le> 1"
    and c: "c = fl a" and b': "b' = fl b" and g: "g = fl (b' + c)"
  shows "\<bar>c - a\<bar> \<le> unit_roundoff * a"
    and "\<bar>g - (a + b)\<bar> \<le> (2 * unit_roundoff + unit_roundoff\<^sup>2) * (a + b)"
proof -
  let ?u = unit_roundoff
  have u0: "0 \<le> ?u" by (simp add: unit_roundoff_def)
  show ca: "\<bar>c - a\<bar> \<le> ?u * a" using fl_error [of a] a by (simp add: c)
  have bb: "\<bar>b' - b\<bar> \<le> ?u * b" using fl_error [of b] b by (simp add: b')
  have c0: "0 \<le> c" using fl_nonneg [OF a] by (simp add: c)
  have b0: "0 \<le> b'" using fl_nonneg [OF b] by (simp add: b')
  have s: "b' + c \<le> (1 + ?u) * (a + b)"
    using ca bb by (simp add: algebra_simps abs_le_iff)
  have "\<bar>g - (b' + c)\<bar> \<le> ?u * (b' + c)"
    using fl_error [of "b' + c"] b0 c0 by (simp add: g)
  also have "\<dots> \<le> ?u * ((1 + ?u) * (a + b))"
    using s u0 by (rule mult_left_mono)
  finally have gg: "\<bar>g - (b' + c)\<bar> \<le> ?u * ((1 + ?u) * (a + b))" .
  have "\<bar>g - (a + b)\<bar> \<le> \<bar>g - (b' + c)\<bar> + \<bar>b' - b\<bar> + \<bar>c - a\<bar>" by linarith
  also have "\<dots> \<le> ?u * ((1 + ?u) * (a + b)) + ?u * b + ?u * a"
    using gg bb ca by linarith
  also have "\<dots> = (2 * ?u + ?u\<^sup>2) * (a + b)"
    by (simp add: algebra_simps power2_eq_square)
  finally show "\<bar>g - (a + b)\<bar> \<le> (2 * ?u + ?u\<^sup>2) * (a + b)" .
qed


text \<open>
  C4, as the code has it. In the Expected-SARSA update with \<open>nA \<ge> 1\<close> actions, a
  vector of length \<open>nA\<close> at \<open>next_state\<close> and a binary64 rate \<open>eps\<close> in [0, 1], the
  vector \<open>policy\<close> has length \<open>nA\<close> and holds the binary64 value of
  \<open>1 - eps + eps/nA\<close> at the argmax of \<open>Q[next_state]\<close> and the binary64 value of
  \<open>eps/nA\<close> elsewhere. These are the exact values up to rounding (within
  \<open>2^-52 + 2^-106\<close> and \<open>2^-53\<close>), and the entries sum to 1 up to rounding: the sum
  differs from 1 by at most \<open>2^-52 + 2^-106\<close>, whatever \<open>nA\<close> is. The bootstrap value
  is the dot product of \<open>Q[next_state]\<close> with the vector.
\<close>

theorem expected_policy_sums_to_one_rounded:
  assumes "0 < nA" and "length (peek Q (Some ns)) = nA"
    and "0 \<le> eps" and "eps \<le> 1" and "fl eps = eps"
  shows "\<exists>p i. policy_expected eps nA Q ns = Inr (p, touch Q (Some ns))
           \<and> argmax (peek Q (Some ns)) = Inr i
           \<and> length p = nA
           \<and> p ! i = fl (fl (1 - eps) + fl (eps / real nA))
           \<and> (\<forall>j<nA. j \<noteq> i \<longrightarrow> p ! j = fl (eps / real nA))
           \<and> \<bar>p ! i - (1 - eps + eps / real nA)\<bar> \<le> 2 * unit_roundoff + unit_roundoff\<^sup>2
           \<and> (\<forall>j<nA. j \<noteq> i \<longrightarrow> \<bar>p ! j - eps / real nA\<bar> \<le> unit_roundoff)
           \<and> \<bar>sum_list p - 1\<bar> \<le> 2 * unit_roundoff + unit_roundoff\<^sup>2
           \<and> Qsa_expected eps nA Q (Some ns)
               = Inr ((\<Sum>(x, y)\<leftarrow>zip (peek Q (Some ns)) p. x * y), touch Q (Some ns))"
proof -
  let ?u = unit_roundoff
  define a where "a = eps / real nA"
  define b where "b = 1 - eps"
  define c where "c = fl a"
  define g where "g = fl (fl b + c)"
  have u0: "0 \<le> ?u" by (simp add: unit_roundoff_def)
  have n1: "1 \<le> real nA" using assms(1) by simp
  have a0: "0 \<le> a" using assms(1,3) by (simp add: a_def)
  have b0: "0 \<le> b" using assms(4) by (simp add: b_def)
  have na: "real nA * a = eps" using assms(1) by (simp add: a_def)
  have a_le: "a \<le> eps"
  proof -
    have "1 * a \<le> real nA * a" using n1 a0 by (rule mult_right_mono)
    then show ?thesis using na by simp
  qed
  have ab: "a + b \<le> 1" using a_le by (simp add: b_def)
  have ab0: "0 \<le> a + b" using a0 b0 by simp
  note bd = rounded_policy_bounds [OF a0 b0 ab c_def refl g_def]
  have k: "(2 * ?u + ?u\<^sup>2) * (a + b) \<le> 2 * ?u + ?u\<^sup>2"
    using mult_left_mono [OF ab, of "2 * ?u + ?u\<^sup>2"] u0 by simp
  have gb: "\<bar>g - (a + b)\<bar> \<le> 2 * ?u + ?u\<^sup>2" using bd(2) k by linarith
  have cb: "\<bar>c - a\<bar> \<le> ?u"
  proof -
    have "a \<le> 1" using a_le assms(4) by linarith
    then have "?u * a \<le> ?u * 1" using u0 by (rule mult_left_mono)
    then show ?thesis using bd(1) by linarith
  qed
  have ne: "peek Q (Some ns) \<noteq> []" using assms(1,2) by auto
  then obtain i where i: "argmax (peek Q (Some ns)) = Inr i"
    using argmax_nonempty by blast
  have il: "i < nA" using argmax_Inr(1) [OF i] assms(2) by simp
  let ?p = "(replicate nA c)[i := g]"
  have pol: "policy_expected eps nA Q ns = Inr (?p, touch Q (Some ns))"
    using assms(1,5) i il by (simp add: policy_expected_eq c_def g_def a_def b_def)
  have len: "length ?p = nA" by simp
  have at: "?p ! i = fl (fl (1 - eps) + fl (eps / real nA))"
    using il by (simp add: g_def c_def a_def b_def)
  have other: "\<forall>j<nA. j \<noteq> i \<longrightarrow> ?p ! j = fl (eps / real nA)"
    by (simp add: c_def a_def)
  have at_b: "\<bar>?p ! i - (1 - eps + eps / real nA)\<bar> \<le> 2 * ?u + ?u\<^sup>2"
    using gb il by (simp add: a_def b_def add.commute)
  have other_b: "\<forall>j<nA. j \<noteq> i \<longrightarrow> \<bar>?p ! j - eps / real nA\<bar> \<le> ?u"
    using cb by (simp add: a_def)
  have S: "sum_list ?p = real nA * c + g - c"
    using il by (rule sum_list_replicate_update)
  have "sum_list ?p - 1 = (real nA - 1) * (c - a) + (g - (a + b))"
    unfolding S using na by (simp add: algebra_simps b_def)
  then have "\<bar>sum_list ?p - 1\<bar> \<le> (real nA - 1) * \<bar>c - a\<bar> + \<bar>g - (a + b)\<bar>"
    using n1 by (simp add: abs_mult abs_triangle_ineq [THEN order_trans])
  also have "\<dots> \<le> (real nA - 1) * (?u * a) + (2 * ?u + ?u\<^sup>2) * (a + b)"
    using bd n1 by (intro add_mono mult_left_mono) simp_all
  also have "(real nA - 1) * (?u * a) = ?u * (eps - a)"
    using na by (simp add: algebra_simps)
  also have "?u * (eps - a) \<le> (2 * ?u + ?u\<^sup>2) * (eps - a)"
    using a_le u0 by (intro mult_right_mono) simp_all
  also have "(2 * ?u + ?u\<^sup>2) * (eps - a) + (2 * ?u + ?u\<^sup>2) * (a + b) = 2 * ?u + ?u\<^sup>2"
    by (simp add: algebra_simps b_def)
  finally have sum: "\<bar>sum_list ?p - 1\<bar> \<le> 2 * ?u + ?u\<^sup>2" by simp
  have q: "Qsa_expected eps nA Q (Some ns)
             = Inr ((\<Sum>(x, y)\<leftarrow>zip (peek Q (Some ns)) ?p. x * y), touch Q (Some ns))"
    using pol assms(2) by (simp add: Qsa_expected_Inr)
  show ?thesis using pol i len at other at_b other_b sum q by blast
qed

text \<open>The roundings that occur for \<open>eps = 1/2\<close> and three actions.\<close>

lemma fl_sixth [simp]: "fl (1/6) = 6004799503160661 / 36028797018963968"
  using fl_eval [of "- 3" "1/6"] by (simp add: round_even_def power_int_minus)

lemma fl_greedy_entry [simp]:
  "fl (24019198012642645 / 36028797018963968) = 6004799503160661 / 9007199254740992"
  using fl_eval [of "- 1" "24019198012642645 / 36028797018963968"]
  by (simp add: round_even_def power_int_minus)

lemma fl_partial_sum [simp]:
  "fl (30023997515803305 / 36028797018963968) = 3752999689475413 / 4503599627370496"
  using fl_eval [of "- 1" "30023997515803305 / 36028797018963968"]
  by (simp add: round_even_def power_int_minus)

lemma fl_total_sum [simp]:
  "fl (36028797018963965 / 36028797018963968) = 9007199254740991 / 9007199254740992"
  using fl_eval [of "- 1" "36028797018963965 / 36028797018963968"]
  by (simp add: round_even_def power_int_minus)

theorem expected_policy_sums_to_one_rounded_witness:
  "(0::nat) < 3 \<and> length (peek (new_table 3) (Some 0)) = 3
   \<and> (0::real) \<le> 1/2 \<and> (1/2::real) \<le> 1 \<and> fl (1/2) = 1/2
   \<and> policy_expected (1/2) 3 (new_table 3) 0
       = Inr ([6004799503160661 / 9007199254740992,
               6004799503160661 / 36028797018963968,
               6004799503160661 / 36028797018963968], table1 3 (Some 0) [0, 0, 0])
   \<and> \<bar>sum_list [6004799503160661 / 9007199254740992,
                6004799503160661 / 36028797018963968,
                6004799503160661 / 36028797018963968 :: real] - 1\<bar>
       \<le> 2 * unit_roundoff + unit_roundoff\<^sup>2"
proof -
  have a: "(0::nat) < 3" by simp
  have b: "length (peek (new_table 3) (Some 0)) = 3"
    by (simp add: peek_eq new_table_def zeros_def)
  have c: "(0::real) \<le> 1/2" and d: "(1/2::real) \<le> 1" and e: "fl (1/2) = 1/2" by simp_all
  have p: "policy_expected (1/2) 3 (new_table 3) 0
       = Inr ([6004799503160661 / 9007199254740992,
               6004799503160661 / 36028797018963968,
               6004799503160661 / 36028797018963968], table1 3 (Some 0) [0, 0, 0])"
    by (simp add: run_defs numeral_3_eq_3)
  from expected_policy_sums_to_one_rounded [OF a b c d e] p
  have "\<bar>sum_list [6004799503160661 / 9007199254740992,
                6004799503160661 / 36028797018963968,
                6004799503160661 / 36028797018963968 :: real] - 1\<bar>
       \<le> 2 * unit_roundoff + unit_roundoff\<^sup>2"
    by auto
  then show ?thesis using a b c d e p by blast
qed

text \<open>
  C4 as stated fails: for \<open>eps = 1/2\<close> and three actions the vector is
  \<open>[0.6666666666666666, 0.16666666666666666, 0.16666666666666666]\<close>; its entries sum
  to \<open>1 - 2^-54\<close>, not to 1, and added from left to right in binary64 they give
  \<open>1 - 2^-53\<close>, which prints as \<open>0.9999999999999999\<close>.
\<close>

theorem expected_policy_sum_counterexample:
  "policy_expected (1/2) 3 (new_table 3) 0
     = Inr ([6004799503160661 / 9007199254740992,
             6004799503160661 / 36028797018963968,
             6004799503160661 / 36028797018963968], table1 3 (Some 0) [0, 0, 0])
   \<and> sum_list [6004799503160661 / 9007199254740992,
               6004799503160661 / 36028797018963968,
               6004799503160661 / 36028797018963968 :: real]
       = 1 - 1 / 2 ^ 54
   \<and> sum_list [6004799503160661 / 9007199254740992,
               6004799503160661 / 36028797018963968,
               6004799503160661 / 36028797018963968 :: real] \<noteq> 1
   \<and> fl (fl (6004799503160661 / 9007199254740992 + 6004799503160661 / 36028797018963968)
          + 6004799503160661 / 36028797018963968)
       = 1 - 1 / 2 ^ 53"
proof -
  have 1: "policy_expected (1/2) 3 (new_table 3) 0
     = Inr ([6004799503160661 / 9007199254740992,
             6004799503160661 / 36028797018963968,
             6004799503160661 / 36028797018963968], table1 3 (Some 0) [0, 0, 0])"
    by (simp add: run_defs numeral_3_eq_3)
  show ?thesis unfolding 1 by simp
qed

subsection \<open>The training loop\<close>

lemma eps_of_episode_Suc:
  "eps_of_episode eps eps_decay eps_min (Suc i)
     = max (eps_of_episode eps eps_decay eps_min i * eps_decay) eps_min"
  by (simp add: eps_of_episode_def decay_eps_def)

lemma train_loop_schedule:
  "train_loop run [Suc k ..< b] n p (eps_of_episode eps eps_decay eps_min k) eps_min eps_decay
     alpha gamma Q all_rewards tmp_rewards avg_rewards e g
   = episodes_with run (map (\<lambda>i. (i, eps_of_episode eps eps_decay eps_min i)) [Suc k ..< b])
       n p alpha gamma Q all_rewards tmp_rewards avg_rewards e g"
proof (induction "b - Suc k" arbitrary: k Q all_rewards tmp_rewards avg_rewards e g)
  case 0
  then have n: "[Suc k ..< b] = []" by simp
  show ?case unfolding n by simp
next
  case (Suc d)
  then have lt: "Suc k < b" and d: "d = b - Suc (Suc k)" by simp_all
  have u: "[Suc k ..< b] = Suc k # [Suc (Suc k) ..< b]"
    using lt by (simp add: upt_conv_Cons)
  show ?case
    unfolding u
    by (simp add: Suc.hyps(1) [OF d] eps_of_episode_Suc [symmetric] Let_def
        split: option.splits sum.splits)
qed

text \<open>
  C7. \<open>train\<close> with \<open>num_episodes\<close> episodes is the run in which episode \<open>i\<close>, for
  \<open>i\<close> from 1 to \<open>num_episodes\<close>, is executed with the initial rate decayed \<open>i\<close>
  times: the rate is updated to \<open>max(eps * eps_decay, eps_min)\<close> before the episode, so
  episode 1 runs with \<open>max(eps * eps_decay, eps_min)\<close> and episode \<open>i + 1\<close> with the rate
  of episode \<open>i\<close> decayed once more. This holds for every episode runner.
\<close>

theorem train_decays_before_each_episode:
  assumes "0 \<le> num_episodes" and "0 \<le> plot_every"
  shows "train run env num_episodes eps eps_min eps_decay alpha gamma plot_every e g
         = episodes_with run
             (map (\<lambda>i. (i, eps_of_episode eps eps_decay eps_min i)) [1 ..< nat num_episodes + 1])
             (nat num_episodes) (nat plot_every) alpha gamma
             (new_table (action_space_n env)) [] [] [] e g
       \<and> eps_of_episode eps eps_decay eps_min 1 = max (eps * eps_decay) eps_min
       \<and> (\<forall>i. eps_of_episode eps eps_decay eps_min (Suc i)
               = max (eps_of_episode eps eps_decay eps_min i * eps_decay) eps_min)"
proof (intro conjI allI)
  have 0: "eps_of_episode eps eps_decay eps_min 0 = eps"
    by (simp add: eps_of_episode_def)
  show "train run env num_episodes eps eps_min eps_decay alpha gamma plot_every e g
         = episodes_with run
             (map (\<lambda>i. (i, eps_of_episode eps eps_decay eps_min i)) [1 ..< nat num_episodes + 1])
             (nat num_episodes) (nat plot_every) alpha gamma
             (new_table (action_space_n env)) [] [] [] e g"
    using assms train_loop_schedule [of run 0 "nat num_episodes + 1" "nat num_episodes"
        "nat plot_every" eps eps_decay eps_min alpha gamma "new_table (action_space_n env)"
        "[]" "[]" "[]" e g]
    by (simp add: train_def 0 Let_def)
  show "eps_of_episode eps eps_decay eps_min 1 = max (eps * eps_decay) eps_min"
    by (simp add: eps_of_episode_def decay_eps_def)
  show "\<And>i. eps_of_episode eps eps_decay eps_min (Suc i)
               = max (eps_of_episode eps eps_decay eps_min i * eps_decay) eps_min"
    by (rule eps_of_episode_Suc)
qed

theorem train_decays_before_each_episode_witness:
  "(0::int) \<le> 3 \<and> (0::int) \<le> 2
   \<and> train probe_runner stub_env 3 1 (1/100) (9/10) (1/2) 1 2 0 (const_rng (3/5))
       = Some (Inr (new_table 2, [9/10, 81/100, 729/1000], [171/200], 0, const_rng (3/5)))"
proof -
  have a: "(0::int) \<le> 3" and b: "(0::int) \<le> 2" by simp_all
  have u: "[1 ..< nat 3 + 1] = [1, 2, 3]"
    by (simp add: upt_conv_Cons)
  have e1: "eps_of_episode 1 (9/10) (1/100) (Suc 0) = 9/10"
    by (simp add: eps_of_episode_def decay_eps_def)
  have e2: "eps_of_episode 1 (9/10) (1/100) 2 = 81/100"
    by (simp add: eps_of_episode_def decay_eps_def numeral_2_eq_2)
  have e3: "eps_of_episode 1 (9/10) (1/100) 3 = 729/1000"
    by (simp add: eps_of_episode_def decay_eps_def numeral_3_eq_3)
  from train_decays_before_each_episode [OF a b, of probe_runner stub_env 1 "1/100" "9/10" "1/2" 1 0
      "const_rng (3/5)"]
  have "train probe_runner stub_env 3 1 (1/100) (9/10) (1/2) 1 2 0 (const_rng (3/5))
       = episodes_with probe_runner
           (map (\<lambda>i. (i, eps_of_episode 1 (9/10) (1/100) i)) [1 ..< nat 3 + 1])
           (nat 3) (nat 2) (1/2) 1 (new_table (action_space_n stub_env)) [] [] [] 0
           (const_rng (3/5))"
    by blast
  also have "\<dots> = Some (Inr (new_table 2, [9/10, 81/100, 729/1000], [171/200], 0,
                            const_rng (3/5)))"
    unfolding u
    by (simp add: e1 e2 e3 probe_runner_def deque_append_def mean_def stub_env_def)
  finally show ?thesis by simp
qed

lemma eps_greedy_no_actions: "eps_greedy eps (new_table 0) state 0 g = Inl ValueError"
  by (simp add: eps_greedy_def np_rand_def np_randint_def dd_get_def new_table_def zeros_def
      argmax_def)

lemma upt_from_1: "0 < n \<Longrightarrow> [1 ..< n + 1] = 1 # [2 ..< n + 1]"
  by (simp add: upt_conv_Cons numeral_2_eq_2)

lemma train_first_episode:
  assumes "0 \<le> plot_every" and "0 < num_episodes"
  shows "train run env num_episodes eps eps_min eps_decay alpha gamma plot_every e g =
           train_loop run (1 # [2 ..< nat num_episodes + 1]) (nat num_episodes) (nat plot_every)
             eps eps_min eps_decay alpha gamma (new_table (action_space_n env)) [] [] [] e g"
proof -
  have p: "\<not> plot_every < 0" and n: "\<not> num_episodes < 0" using assms by simp_all
  have "0 < nat num_episodes" using assms(2) by simp
  then have u: "[1 ..< nat num_episodes + 1] = 1 # [2 ..< nat num_episodes + 1]"
    by (rule upt_from_1)
  have "train run env num_episodes eps eps_min eps_decay alpha gamma plot_every e g =
           train_loop run [1 ..< nat num_episodes + 1] (nat num_episodes) (nat plot_every)
             eps eps_min eps_decay alpha gamma (new_table (action_space_n env)) [] [] [] e g"
    using p n by (simp only: train_def Let_def if_False)
  then show ?thesis by (simp only: u)
qed

lemma train_loop_first_None:
  "run (max (eps * eps_decay) eps_min) alpha gamma Q e g = None \<Longrightarrow>
   train_loop run (i # is) n p eps eps_min eps_decay alpha gamma Q a t v e g = None"
  by (simp add: Let_def)

lemma train_loop_first_Inl:
  "run (max (eps * eps_decay) eps_min) alpha gamma Q e g = Some (Inl err) \<Longrightarrow>
   train_loop run (i # is) n p eps eps_min eps_decay alpha gamma Q a t v e g = Some (Inl err)"
  by (simp add: Let_def)

text \<open>
  C9, as the code has it. \<open>train\<close> checks no configuration value itself. The only
  failures at entry are those of \<open>deque(maxlen=...)\<close>: a negative \<open>plot_every\<close> or
  \<open>num_episodes\<close> raises \<open>ValueError\<close> before any episode. With \<open>num_episodes = 0\<close>
  the call returns the empty table and empty reward histories. With
  \<open>num_episodes > 0\<close> the first episode is run, whatever \<open>alpha\<close> and the number of
  actions are, and when that episode does not finish or raises, so does \<open>train\<close>; with
  no actions at all the first selection of an action inside the first episode raises
  \<open>ValueError\<close>.
\<close>

theorem train_entry_checks:
  "(plot_every < 0 \<or> num_episodes < 0 \<longrightarrow>
      train run env num_episodes eps eps_min eps_decay alpha gamma plot_every e g
        = Some (Inl ValueError))
   \<and> (0 \<le> plot_every \<and> num_episodes = 0 \<longrightarrow>
      train run env num_episodes eps eps_min eps_decay alpha gamma plot_every e g
        = Some (Inr (new_table (action_space_n env), [], [], e, g)))
   \<and> (0 \<le> plot_every \<and> 0 < num_episodes \<longrightarrow>
        (run (max (eps * eps_decay) eps_min) alpha gamma (new_table (action_space_n env)) e g = None
           \<longrightarrow> train run env num_episodes eps eps_min eps_decay alpha gamma plot_every e g = None)
      \<and> (\<forall>err. run (max (eps * eps_decay) eps_min) alpha gamma (new_table (action_space_n env)) e g
                  = Some (Inl err)
           \<longrightarrow> train run env num_episodes eps eps_min eps_decay alpha gamma plot_every e g
                 = Some (Inl err)))
   \<and> (0 \<le> plot_every \<and> 0 < num_episodes \<and> action_space_n env = 0 \<longrightarrow>
        train_sarsa fuel reward_g env num_episodes eps eps_min eps_decay alpha gamma plot_every e g
          = Some (Inl ValueError)
      \<and> train_max (Suc fuel) reward_g env num_episodes eps eps_min eps_decay alpha gamma plot_every e g
          = Some (Inl ValueError)
      \<and> train_expected (Suc fuel) reward_g env num_episodes eps eps_min eps_decay alpha gamma
          plot_every e g
          = Some (Inl ValueError))"
proof (intro conjI impI allI)
  assume "plot_every < 0 \<or> num_episodes < 0"
  then show "train run env num_episodes eps eps_min eps_decay alpha gamma plot_every e g
        = Some (Inl ValueError)"
    by (auto simp: train_def Let_def)
next
  assume "0 \<le> plot_every \<and> num_episodes = 0"
  then show "train run env num_episodes eps eps_min eps_decay alpha gamma plot_every e g
        = Some (Inr (new_table (action_space_n env), [], [], e, g))"
    by (simp add: train_def Let_def)
next
  assume a: "0 \<le> plot_every \<and> 0 < num_episodes"
    and r: "run (max (eps * eps_decay) eps_min) alpha gamma (new_table (action_space_n env)) e g = None"
  show "train run env num_episodes eps eps_min eps_decay alpha gamma plot_every e g = None"
    using a r by (simp add: train_first_episode train_loop_first_None)
next
  fix err
  assume a: "0 \<le> plot_every \<and> 0 < num_episodes"
    and r: "run (max (eps * eps_decay) eps_min) alpha gamma (new_table (action_space_n env)) e g
              = Some (Inl err)"
  show "train run env num_episodes eps eps_min eps_decay alpha gamma plot_every e g = Some (Inl err)"
    using a r by (simp add: train_first_episode train_loop_first_Inl)
next
  assume a: "0 \<le> plot_every \<and> 0 < num_episodes \<and> action_space_n env = 0"
  show "train_sarsa fuel reward_g env num_episodes eps eps_min eps_decay alpha gamma plot_every e g
          = Some (Inl ValueError)"
    using a
    by (simp add: train_sarsa_def train_first_episode train_loop_first_Inl
        generate_sarsa_episode_sarsa_def eps_greedy_no_actions split: prod.splits)
  show "train_max (Suc fuel) reward_g env num_episodes eps eps_min eps_decay alpha gamma plot_every e g
          = Some (Inl ValueError)"
    using a
    by (simp add: train_max_def train_first_episode train_loop_first_Inl
        generate_sarsa_episode_max_def eps_greedy_no_actions split: prod.splits)
  show "train_expected (Suc fuel) reward_g env num_episodes eps eps_min eps_decay alpha gamma
          plot_every e g = Some (Inl ValueError)"
    using a
    by (simp add: train_expected_def train_first_episode train_loop_first_Inl
        generate_sarsa_episode_expected_def eps_greedy_no_actions split: prod.splits)
qed

theorem train_entry_checks_witness:
  "train probe_runner stub_env (- 1) 1 (1/100) (9/10) 0 1 100 0 (const_rng (3/5))
     = Some (Inl ValueError)
   \<and> train probe_runner stub_env 0 1 (1/100) (9/10) 0 1 100 0 (const_rng (3/5))
     = Some (Inr (new_table 2, [], [], 0, const_rng (3/5)))
   \<and> train_max 0 (Some (- 1)) stub_env 1 1 (1/100) (9/10) 0 1 100 0 (const_rng (3/5)) = None
   \<and> train_max (Suc 0) (Some (- 1)) (stub_env\<lparr>action_space_n := 0\<rparr>) 1 1 (1/100) (9/10) 0 1 100 0
       (const_rng (3/5)) = Some (Inl ValueError)"
proof (intro conjI)
  show "train probe_runner stub_env (- 1) 1 (1/100) (9/10) 0 1 100 0 (const_rng (3/5))
     = Some (Inl ValueError)"
    using train_entry_checks [of 100 "- 1" probe_runner stub_env 1 "1/100" "9/10" 0 1 0
        "const_rng (3/5)"]
    by simp
  show "train probe_runner stub_env 0 1 (1/100) (9/10) 0 1 100 0 (const_rng (3/5))
     = Some (Inr (new_table 2, [], [], 0, const_rng (3/5)))"
    using train_entry_checks [of 100 0 probe_runner stub_env 1 "1/100" "9/10" 0 1 0
        "const_rng (3/5)"]
    by (simp add: stub_env_def)
  have n: "generate_sarsa_episode_max 0 (Some (- 1)) stub_env (new_table (action_space_n stub_env))
             (max (1 * (9/10)) (1/100)) 0 1 0 (const_rng (3/5)) = None"
    by (simp add: generate_sarsa_episode_max_def stub_env_def)
  show "train_max 0 (Some (- 1)) stub_env 1 1 (1/100) (9/10) 0 1 100 0 (const_rng (3/5)) = None"
    using train_entry_checks
      [of 100 1 "\<lambda>eps alpha gamma Q. generate_sarsa_episode_max 0 (Some (- 1)) stub_env Q eps alpha gamma"
          stub_env 1 "1/100" "9/10" 0 1 0 "const_rng (3/5)"] n
    by (simp add: train_max_def)
  show "train_max (Suc 0) (Some (- 1)) (stub_env\<lparr>action_space_n := 0\<rparr>) 1 1 (1/100) (9/10) 0 1 100 0
       (const_rng (3/5)) = Some (Inl ValueError)"
    using train_entry_checks [where plot_every = 100 and num_episodes = 1
        and env = "stub_env\<lparr>action_space_n := 0\<rparr>" and fuel = 0 and reward_g = "Some (- 1)"
        and eps = 1 and eps_min = "1/100" and eps_decay = "9/10" and alpha = 0 and gamma = 1
        and e = 0 and g = "const_rng (3/5)"]
    by simp
qed

text \<open>
  C9 as stated fails: with \<open>alpha = -1\<close>, SARSAMAX training returns normally, for
  \<open>num_episodes = 0\<close> with the empty table and no rewards, and for \<open>num_episodes = 1\<close>
  after running the episode (score -2) and updating the table with the negative step
  size.
\<close>

theorem train_no_validation_counterexample:
  "train_max 2 (Some (- 1)) stub_env 0 1 (1/100) (9/10) (- 1) 1 100 0 (const_rng (3/5))
     = Some (Inr (new_table 2, [], [], 0, const_rng (3/5)))
   \<and> train_max 2 (Some (- 1)) stub_env 1 1 (1/100) (9/10) (- 1) 1 100 0 (const_rng (3/5))
     = Some (Inr (table3 2 [0, 0] [0, 1] [0, 1], [- 2], [], 2, const_rng (3/5)))"
proof
  show "train_max 2 (Some (- 1)) stub_env 0 1 (1/100) (9/10) (- 1) 1 100 0 (const_rng (3/5))
     = Some (Inr (new_table 2, [], [], 0, const_rng (3/5)))"
    by (simp add: train_defs new_table_def stub_env_def)
  show "train_max 2 (Some (- 1)) stub_env 1 1 (1/100) (9/10) (- 1) 1 100 0 (const_rng (3/5))
     = Some (Inr (table3 2 [0, 0] [0, 1] [0, 1], [- 2], [], 2, const_rng (3/5)))"
    by (auto simp add: train_defs run_defs numeral_2_eq_2 table3_def fun_eq_iff)
qed

subsection \<open>The name \<open>reward\<close>\<close>

text \<open>
  C2. The value that \<open>update_sarsa_Q\<close> returns is not determined by its arguments: with
  the same arguments, each variant returns -1/2 when the module-level name \<open>reward\<close> is
  bound to -1 and -50 when it is bound to -100, and SARSA raises \<open>NameError\<close> when it is
  unbound. The reward that the environment pays does not reach the update: in the
  environment above, whose two steps pay -1 each, a SARSAMAX episode leaves every action
  value at 0 when the name is bound to 0, and writes -1/2 twice when it is bound to -1.
\<close>

theorem update_reads_global_reward:
  "update_sarsa_Q_sarsa (Some (- 1)) (1/2) 1 (table1 2 (Some 0) [0, 0]) 0 0 None
     = Inr (- (1/2), table1 2 (Some 0) [0, 0])
   \<and> update_sarsa_Q_sarsa (Some (- 100)) (1/2) 1 (table1 2 (Some 0) [0, 0]) 0 0 None
     = Inr (- 50, table1 2 (Some 0) [0, 0])
   \<and> update_sarsa_Q_sarsa None (1/2) 1 (table1 2 (Some 0) [0, 0]) 0 0 None = Inl NameError
   \<and> update_sarsa_Q_max (Some (- 1)) (1/2) 1 (table1 2 (Some 0) [0, 0]) 0 0 (Some 0)
     = Inr (- (1/2), table1 2 (Some 0) [0, 0])
   \<and> update_sarsa_Q_max (Some (- 100)) (1/2) 1 (table1 2 (Some 0) [0, 0]) 0 0 (Some 0)
     = Inr (- 50, table1 2 (Some 0) [0, 0])
   \<and> update_sarsa_Q_expected (Some (- 1)) (1/2) 2 (1/2) 1 (table1 2 (Some 0) [0, 0]) 0 0 None
     = Inr (- (1/2), table1 2 (Some 0) [0, 0])
   \<and> update_sarsa_Q_expected (Some (- 100)) (1/2) 2 (1/2) 1 (table1 2 (Some 0) [0, 0]) 0 0 None
     = Inr (- 50, table1 2 (Some 0) [0, 0])
   \<and> generate_sarsa_episode_max 2 (Some 0) stub_env (new_table 2) 1 (1/2) 1 0 (const_rng (3/5))
     = Some (Inr (table3 2 [0, 0] [0, 0] [0, 0], - 2, 2, const_rng (3/5)))
   \<and> generate_sarsa_episode_max 2 (Some (- 1)) stub_env (new_table 2) 1 (1/2) 1 0 (const_rng (3/5))
     = Some (Inr (table3 2 [0, 0] [0, - (1/2)] [0, - (1/2)], - 2, 2, const_rng (3/5)))"
proof -
  have 1: "generate_sarsa_episode_max 2 (Some 0) stub_env (new_table 2) 1 (1/2) 1 0 (const_rng (3/5))
     = Some (Inr (table3 2 [0, 0] [0, 0] [0, 0], - 2, 2, const_rng (3/5)))"
    by (auto simp add: run_defs numeral_2_eq_2 table3_def fun_eq_iff)
  have 2: "generate_sarsa_episode_max 2 (Some (- 1)) stub_env (new_table 2) 1 (1/2) 1 0 (const_rng (3/5))
     = Some (Inr (table3 2 [0, 0] [0, - (1/2)] [0, - (1/2)], - 2, 2, const_rng (3/5)))"
    by (auto simp add: run_defs numeral_2_eq_2 table3_def fun_eq_iff)
  show ?thesis unfolding 1 2
    by (simp add: run_defs)
qed

text \<open>
  C1. The value written is not the claim's: in place of the reward of the transition the
  update uses whatever the module-level name \<open>reward\<close> holds. In the environment above
  an episode from the table \<open>{1: [0, 4]}\<close> with \<open>alpha = 1/2\<close> and \<open>gamma = 1\<close> takes
  action 1 twice, each step paying -1. For the first transition the claim's value of
  \<open>Q[0][1]\<close> is \<open>0 + 1/2 * (-1 + 4 - 0) = 3/2\<close> for SARSA and SARSAMAX (bootstrap 4) and
  \<open>0 + 1/2 * (-1 + 2 - 0) = 1/2\<close> for Expected SARSA (bootstrap 2, at \<open>eps = 1\<close>); for
  the terminal one the claim's value of \<open>Q[1][1]\<close> is \<open>4 + 1/2 * (-1 - 4) = 3/2\<close>. With
  the name bound to 0 the three variants write 2, 2 and 1 to \<open>Q[0][1]\<close> and 2 to
  \<open>Q[1][1]\<close>, the formula with 0 for the reward; they write the claim's values when the
  name happens to hold -1. No other entry is written in either case.
\<close>

theorem update_ignores_transition_reward:
  "generate_sarsa_episode_sarsa 2 (Some 0) stub_env (table1 2 (Some 1) [0, 4]) 1 (1/2) 1 0
       (const_rng (3/5))
     = Some (Inr (table_of 2 [(Some 0, [0, 2]), (Some 1, [0, 2])], - 2, 2, const_rng (3/5)))
   \<and> generate_sarsa_episode_max 2 (Some 0) stub_env (table1 2 (Some 1) [0, 4]) 1 (1/2) 1 0
       (const_rng (3/5))
     = Some (Inr (table_of 2 [(None, [0, 0]), (Some 0, [0, 2]), (Some 1, [0, 2])], - 2, 2,
                  const_rng (3/5)))
   \<and> generate_sarsa_episode_expected 2 (Some 0) stub_env (table1 2 (Some 1) [0, 4]) 1 (1/2) 1 0
       (const_rng (3/5))
     = Some (Inr (table_of 2 [(Some 0, [0, 1]), (Some 1, [0, 2])], - 2, 2, const_rng (3/5)))
   \<and> generate_sarsa_episode_sarsa 2 (Some (- 1)) stub_env (table1 2 (Some 1) [0, 4]) 1 (1/2) 1 0
       (const_rng (3/5))
     = Some (Inr (table_of 2 [(Some 0, [0, 3/2]), (Some 1, [0, 3/2])], - 2, 2, const_rng (3/5)))
   \<and> generate_sarsa_episode_max 2 (Some (- 1)) stub_env (table1 2 (Some 1) [0, 4]) 1 (1/2) 1 0
       (const_rng (3/5))
     = Some (Inr (table_of 2 [(None, [0, 0]), (Some 0, [0, 3/2]), (Some 1, [0, 3/2])], - 2, 2,
                  const_rng (3/5)))
   \<and> generate_sarsa_episode_expected 2 (Some (- 1)) stub_env (table1 2 (Some 1) [0, 4]) 1 (1/2) 1 0
       (const_rng (3/5))
     = Some (Inr (table_of 2 [(Some 0, [0, 1/2]), (Some 1, [0, 3/2])], - 2, 2, const_rng (3/5)))"
proof (intro conjI)
  show "generate_sarsa_episode_sarsa 2 (Some 0) stub_env (table1 2 (Some 1) [0, 4]) 1 (1/2) 1 0
       (const_rng (3/5))
     = Some (Inr (table_of 2 [(Some 0, [0, 2]), (Some 1, [0, 2])], - 2, 2, const_rng (3/5)))"
    by (auto simp add: run_defs numeral_2_eq_2 table_of_def fun_eq_iff)
  show "generate_sarsa_episode_max 2 (Some 0) stub_env (table1 2 (Some 1) [0, 4]) 1 (1/2) 1 0
       (const_rng (3/5))
     = Some (Inr (table_of 2 [(None, [0, 0]), (Some 0, [0, 2]), (Some 1, [0, 2])], - 2, 2,
                  const_rng (3/5)))"
    by (auto simp add: run_defs numeral_2_eq_2 table_of_def fun_eq_iff)
  show "generate_sarsa_episode_expected 2 (Some 0) stub_env (table1 2 (Some 1) [0, 4]) 1 (1/2) 1 0
       (const_rng (3/5))
     = Some (Inr (table_of 2 [(Some 0, [0, 1]), (Some 1, [0, 2])], - 2, 2, const_rng (3/5)))"
    by (auto simp add: run_defs numeral_2_eq_2 table_of_def fun_eq_iff)
  show "generate_sarsa_episode_sarsa 2 (Some (- 1)) stub_env (table1 2 (Some 1) [0, 4]) 1 (1/2) 1 0
       (const_rng (3/5))
     = Some (Inr (table_of 2 [(Some 0, [0, 3/2]), (Some 1, [0, 3/2])], - 2, 2, const_rng (3/5)))"
    by (auto simp add: run_defs numeral_2_eq_2 table_of_def fun_eq_iff)
  show "generate_sarsa_episode_max 2 (Some (- 1)) stub_env (table1 2 (Some 1) [0, 4]) 1 (1/2) 1 0
       (const_rng (3/5))
     = Some (Inr (table_of 2 [(None, [0, 0]), (Some 0, [0, 3/2]), (Some 1, [0, 3/2])], - 2, 2,
                  const_rng (3/5)))"
    by (auto simp add: run_defs numeral_2_eq_2 table_of_def fun_eq_iff)
  show "generate_sarsa_episode_expected 2 (Some (- 1)) stub_env (table1 2 (Some 1) [0, 4]) 1 (1/2) 1 0
       (const_rng (3/5))
     = Some (Inr (table_of 2 [(Some 0, [0, 1/2]), (Some 1, [0, 3/2])], - 2, 2, const_rng (3/5)))"
    by (auto simp add: run_defs numeral_2_eq_2 table_of_def fun_eq_iff)
qed

text \<open>
  C5. On a terminal transition the bootstrap value is 0, but the value written is not
  the claim's, for the same reason. From the table \<open>{0: [0, 4]}\<close> with
  \<open>alpha = 1/2\<close>, one terminal step that pays -1 must leave
  \<open>Q[0][1] = 4 + 1/2 * (-1 - 4) = 3/2\<close>, and one that pays 1000 must leave 502. With the
  name \<open>reward\<close> bound to 0 all three variants leave \<open>Q[0][1] = 4 + 1/2 * (0 - 4) = 2\<close>
  in both cases, and only the score tells the two episodes apart.
\<close>

theorem terminal_update_ignores_final_reward:
  "generate_sarsa_episode_sarsa 1 (Some 0) (one_step_env (- 1)) (table1 2 (Some 0) [0, 4]) 1 (1/2)
       (9/10) 0 (const_rng (3/5))
     = Some (Inr (table_of 2 [(Some 0, [0, 2])], - 1, 1, const_rng (3/5)))
   \<and> generate_sarsa_episode_max 1 (Some 0) (one_step_env (- 1)) (table1 2 (Some 0) [0, 4]) 1 (1/2)
       (9/10) 0 (const_rng (3/5))
     = Some (Inr (table_of 2 [(None, [0, 0]), (Some 0, [0, 2])], - 1, 1, const_rng (3/5)))
   \<and> generate_sarsa_episode_expected 1 (Some 0) (one_step_env (- 1)) (table1 2 (Some 0) [0, 4]) 1
       (1/2) (9/10) 0 (const_rng (3/5))
     = Some (Inr (table_of 2 [(Some 0, [0, 2])], - 1, 1, const_rng (3/5)))
   \<and> generate_sarsa_episode_sarsa 1 (Some 0) (one_step_env 1000) (table1 2 (Some 0) [0, 4]) 1 (1/2)
       (9/10) 0 (const_rng (3/5))
     = Some (Inr (table_of 2 [(Some 0, [0, 2])], 1000, 1, const_rng (3/5)))
   \<and> generate_sarsa_episode_max 1 (Some 0) (one_step_env 1000) (table1 2 (Some 0) [0, 4]) 1 (1/2)
       (9/10) 0 (const_rng (3/5))
     = Some (Inr (table_of 2 [(None, [0, 0]), (Some 0, [0, 2])], 1000, 1, const_rng (3/5)))
   \<and> generate_sarsa_episode_expected 1 (Some 0) (one_step_env 1000) (table1 2 (Some 0) [0, 4]) 1
       (1/2) (9/10) 0 (const_rng (3/5))
     = Some (Inr (table_of 2 [(Some 0, [0, 2])], 1000, 1, const_rng (3/5)))"
  by (intro conjI) (auto simp add: run_defs one_step_env_def table_of_def fun_eq_iff numeral_2_eq_2)

end
